theory Spec2Isabelle
  imports Complex_Main
begin

section \<open>JSON values and the Python operations the code applies to them\<close>

text \<open>
  The search engine answers with a JSON document, and every statistics fragment is a
  JSON-like Python value. A Python \<^verbatim>\<open>dict\<close> is an association list in insertion
  order, looked up with \<open>map_of\<close>. JSON numbers are the integers (document counts and
  severity levels); non-integral numbers are outside this model.
\<close>

datatype json =
    JNull
  | JBool bool
  | JInt int
  | JStr string
  | JList "json list"
  | JObj "(string \<times> json) list"

type_synonym dict = "(string \<times> json) list"

text \<open>The exception classes that the modelled code can raise or catch.\<close>

datatype exn =
    AttributeError
  | KeyError
  | TypeError
  | ValueError
  | IndexError
  | RecursionError
  | RequestException

text \<open>
  What the code uses of the Python runtime without defining it: \<^verbatim>\<open>int(s)\<close> on a
  string (\<open>None\<close> where it raises \<^verbatim>\<open>ValueError\<close>) and \<^verbatim>\<open>str(e)\<close> on an
  exception. Every theorem below holds for any such pair.
\<close>

record builtins =
  int_of_str :: "string \<Rightarrow> int option"
  str_of_exn :: "exn \<Rightarrow> string"

text \<open>Sequencing of statements that may raise: the first exception ends the block.\<close>

fun and_then :: "exn + 'a \<Rightarrow> ('a \<Rightarrow> exn + 'b) \<Rightarrow> exn + 'b" where
  "and_then (Inl e) f = Inl e"
| "and_then (Inr v) f = f v"

text \<open>\<^verbatim>\<open>x.get(k, d)\<close>: only a dict has the method.\<close>

fun py_get :: "json \<Rightarrow> string \<Rightarrow> json \<Rightarrow> exn + json" where
  "py_get (JObj kvs) k d = Inr (case map_of kvs k of Some v \<Rightarrow> v | None \<Rightarrow> d)"
| "py_get JNull k d = Inl AttributeError"
| "py_get (JBool b) k d = Inl AttributeError"
| "py_get (JInt n) k d = Inl AttributeError"
| "py_get (JStr s) k d = Inl AttributeError"
| "py_get (JList xs) k d = Inl AttributeError"

text \<open>\<^verbatim>\<open>x[k]\<close> with a string key \<open>k\<close>.\<close>

fun py_index :: "json \<Rightarrow> string \<Rightarrow> exn + json" where
  "py_index (JObj kvs) k = (case map_of kvs k of Some v \<Rightarrow> Inr v | None \<Rightarrow> Inl KeyError)"
| "py_index JNull k = Inl TypeError"
| "py_index (JBool b) k = Inl TypeError"
| "py_index (JInt n) k = Inl TypeError"
| "py_index (JStr s) k = Inl TypeError"
| "py_index (JList xs) k = Inl TypeError"

text \<open>\<^verbatim>\<open>x[0]\<close>. The keys of a JSON object are strings, so \<open>0\<close> is never one of them.\<close>

fun py_first :: "json \<Rightarrow> exn + json" where
  "py_first (JList []) = Inl IndexError"
| "py_first (JList (x # xs)) = Inr x"
| "py_first (JStr []) = Inl IndexError"
| "py_first (JStr (c # cs)) = Inr (JStr [c])"
| "py_first (JObj kvs) = Inl KeyError"
| "py_first JNull = Inl TypeError"
| "py_first (JBool b) = Inl TypeError"
| "py_first (JInt n) = Inl TypeError"

text \<open>
  \<^verbatim>\<open>for x in v\<close>: a list yields its elements, a dict its keys, a string its
  characters; nothing else is iterable.
\<close>

fun py_iter :: "json \<Rightarrow> exn + json list" where
  "py_iter (JList xs) = Inr xs"
| "py_iter (JObj kvs) = Inr (map (\<lambda>kv. JStr (fst kv)) kvs)"
| "py_iter (JStr s) = Inr (map (\<lambda>c. JStr [c]) s)"
| "py_iter JNull = Inl TypeError"
| "py_iter (JBool b) = Inl TypeError"
| "py_iter (JInt n) = Inl TypeError"

text \<open>Truth value of a value in a condition.\<close>

fun py_truthy :: "json \<Rightarrow> bool" where
  "py_truthy JNull = False"
| "py_truthy (JBool b) = b"
| "py_truthy (JInt n) = (n \<noteq> 0)"
| "py_truthy (JStr s) = (s \<noteq> [])"
| "py_truthy (JList xs) = (xs \<noteq> [])"
| "py_truthy (JObj kvs) = (kvs \<noteq> [])"

text \<open>\<^verbatim>\<open>int(v)\<close>.\<close>

fun py_int :: "builtins \<Rightarrow> json \<Rightarrow> exn + int" where
  "py_int py (JInt n) = Inr n"
| "py_int py (JBool b) = Inr (if b then 1 else 0)"
| "py_int py (JStr s) = (case int_of_str py s of Some n \<Rightarrow> Inr n | None \<Rightarrow> Inl ValueError)"
| "py_int py JNull = Inl TypeError"
| "py_int py (JList xs) = Inl TypeError"
| "py_int py (JObj kvs) = Inl TypeError"

text \<open>\<^verbatim>\<open>n + v\<close> for an integer \<open>n\<close>: defined on numbers only.\<close>

fun py_add_int :: "int \<Rightarrow> json \<Rightarrow> exn + int" where
  "py_add_int n (JInt m) = Inr (n + m)"
| "py_add_int n (JBool b) = Inr (n + (if b then 1 else 0))"
| "py_add_int n JNull = Inl TypeError"
| "py_add_int n (JStr s) = Inl TypeError"
| "py_add_int n (JList xs) = Inl TypeError"
| "py_add_int n (JObj kvs) = Inl TypeError"

text \<open>
  \<^verbatim>\<open>v.lower()\<close>, on the letters A to Z. Python also lowers letters outside ASCII;
  none of them becomes a letter of \<^verbatim>\<open>active\<close> or \<^verbatim>\<open>connected\<close>, the only
  strings the result is compared with.
\<close>

definition lower_char :: "char \<Rightarrow> char" where
  "lower_char c =
     (case map_of (zip ''ABCDEFGHIJKLMNOPQRSTUVWXYZ'' ''abcdefghijklmnopqrstuvwxyz'') c of
        Some l \<Rightarrow> l
      | None \<Rightarrow> c)"

fun py_lower :: "json \<Rightarrow> exn + string" where
  "py_lower (JStr s) = Inr (map lower_char s)"
| "py_lower JNull = Inl AttributeError"
| "py_lower (JBool b) = Inl AttributeError"
| "py_lower (JInt n) = Inl AttributeError"
| "py_lower (JList xs) = Inl AttributeError"
| "py_lower (JObj kvs) = Inl AttributeError"

text \<open>A list comprehension whose element expression may raise.\<close>

fun map_exn :: "('a \<Rightarrow> exn + 'b) \<Rightarrow> 'a list \<Rightarrow> exn + 'b list" where
  "map_exn f [] = Inr []"
| "map_exn f (x # xs) =
     and_then (f x) (\<lambda>y. and_then (map_exn f xs) (\<lambda>ys. Inr (y # ys)))"

text \<open>\<^verbatim>\<open>d[k] = v\<close> and \<^verbatim>\<open>d.update(other)\<close> on a dict in insertion order.\<close>

fun dict_set :: "dict \<Rightarrow> string \<Rightarrow> json \<Rightarrow> dict" where
  "dict_set [] k v = [(k, v)]"
| "dict_set ((k', v') # rest) k v =
     (if k' = k then (k, v) # rest else (k', v') # dict_set rest k v)"

definition dict_update :: "dict \<Rightarrow> dict \<Rightarrow> dict" where
  "dict_update d other = foldl (\<lambda>acc kv. dict_set acc (fst kv) (snd kv)) d other"

text \<open>\<^verbatim>\<open>d.get(k, default)\<close> on a value that is a dict by construction.\<close>

definition dict_get :: "dict \<Rightarrow> string \<Rightarrow> json \<Rightarrow> json" where
  "dict_get d k dflt = (case map_of d k of Some v \<Rightarrow> v | None \<Rightarrow> dflt)"

section \<open>The search client (core/connectors/elasticsearch\_connector.py)\<close>

text \<open>
  The fields of \<^verbatim>\<open>ElasticsearchConnector\<close> that scoping and request execution read.
  \<open>indexer_url\<close> is the base URL that the constructor forms from the configuration.
  The backoff is a number of seconds.
\<close>

record connector =
  client_name :: "string option"
  indexer_url :: string
  max_retries :: nat
  retry_backoff :: rat

definition ElasticsearchConnector :: "string \<Rightarrow> string option \<Rightarrow> connector" where
  "ElasticsearchConnector url name =
     \<lparr>client_name = name, indexer_url = url, max_retries = 2, retry_backoff = 3 / 2\<rparr>"

text \<open>
  \<^verbatim>\<open>_scope_index\<close>. \<^verbatim>\<open>not self.client_name\<close> holds for \<^verbatim>\<open>None\<close> and for the
  empty string.
\<close>

definition scope_index :: "connector \<Rightarrow> string \<Rightarrow> string" where
  "scope_index c index =
     (case client_name c of
        None \<Rightarrow> index
      | Some name \<Rightarrow>
          if name = [] then index
          else if CHR '':'' \<in> set index then index
          else name @ '':'' @ index)"

text \<open>
  One \<^verbatim>\<open>requests.post\<close>: either a response, with its status code and what
  \<^verbatim>\<open>response.json()\<close> does on its body, or the exception that the call raised.
  A failure of the request itself (connection refused, timeout, DNS) is a
  \<^verbatim>\<open>requests.exceptions.RequestException\<close>. Decoding the body returns the JSON
  value (\<open>Inr\<close>) or raises (\<open>Inl\<close>): for a body that is not JSON the library
  raises its own \<^verbatim>\<open>JSONDecodeError\<close>, a \<^verbatim>\<open>RequestException\<close>; anything
  else that the decoder raises comes out as it is, a \<^verbatim>\<open>ValueError\<close> for an
  integer beyond the digit limit, a \<^verbatim>\<open>RecursionError\<close> for a body nested too
  deep.
\<close>

datatype post_outcome =
    Response nat "exn + json"
  | Raised exn


text \<open>What a search does to the outside: the attempts it posts and the pauses it takes.\<close>

datatype event =
    Post nat
  | Sleep rat

text \<open>
  The body of the \<^verbatim>\<open>try\<close> in \<^verbatim>\<open>_execute_search_request\<close>: the body of a 200
  answer is decoded, and what the decoding raises is raised; any other status gives
  \<^verbatim>\<open>{}\<close> without a look at the body.
\<close>

fun request_try :: "post_outcome \<Rightarrow> exn + json" where
  "request_try (Response status body) =
     (if status = 200 then body else Inr (JObj []))"
| "request_try (Raised e) = Inl e"

text \<open>
  The \<^verbatim>\<open>for attempt in range(self.max_retries + 1)\<close> loop over the attempts still to
  make; the \<^verbatim>\<open>except\<close> clause catches \<^verbatim>\<open>RequestException\<close> only, and the
  \<^verbatim>\<open>return {}\<close> after the loop is the empty case.
\<close>

fun search_attempts ::
  "connector \<Rightarrow> (nat \<Rightarrow> post_outcome) \<Rightarrow> nat list \<Rightarrow> (exn + json) \<times> event list" where
  "search_attempts c post [] = (Inr (JObj []), [])"
| "search_attempts c post (attempt # rest) =
     (case request_try (post attempt) of
        Inr j \<Rightarrow> (Inr j, [Post attempt])
      | Inl RequestException \<Rightarrow>
          (if attempt < max_retries c then
             (let r = search_attempts c post rest
              in (fst r,
                  Post attempt # Sleep (retry_backoff c * of_nat (attempt + 1)) # snd r))
           else (Inr (JObj []), [Post attempt]))
      | Inl e \<Rightarrow> (Inl e, [Post attempt]))"

definition execute_search_request ::
  "connector \<Rightarrow> (nat \<Rightarrow> post_outcome) \<Rightarrow> (exn + json) \<times> event list" where
  "execute_search_request c post = search_attempts c post [0..<max_retries c + 1]"

text \<open>
  The backend: the outcome of the \<open>n\<close>-th attempt to post a query body to a URL.
  Credentials, TLS verification and the timeouts are the same in every request of a
  connector and are part of this function.
\<close>

type_synonym backend = "string \<Rightarrow> json \<Rightarrow> nat \<Rightarrow> post_outcome"

definition search_url :: "connector \<Rightarrow> string \<Rightarrow> string" where
  "search_url c index = indexer_url c @ ''/'' @ scope_index c index @ ''/_search''"

definition search_events ::
  "connector \<Rightarrow> backend \<Rightarrow> string \<Rightarrow> json \<Rightarrow> (exn + json) \<times> event list" where
  "search_events c be index body = execute_search_request c (be (search_url c index) body)"

definition search :: "connector \<Rightarrow> backend \<Rightarrow> string \<Rightarrow> json \<Rightarrow> exn + json" where
  "search c be index body = fst (search_events c be index body)"

section \<open>The aggregation pipeline (core/stats.py)\<close>

subsection \<open>The query bodies\<close>

definition range_filter :: "string \<Rightarrow> json" where
  "range_filter es_time_range =
     JObj [(''range'', JObj [(''@timestamp'',
       JObj [(''gte'', JStr es_time_range), (''lte'', JStr ''now'')])])]"

definition alerts_per_hour_query :: "string \<Rightarrow> string \<Rightarrow> json" where
  "alerts_per_hour_query es_time_range interval =
     JObj [(''query'', range_filter es_time_range),
           (''size'', JInt 0),
           (''aggs'', JObj [(''alerts_per_hour'', JObj [(''date_histogram'',
              JObj [(''field'', JStr ''@timestamp''),
                    (''calendar_interval'', JStr interval),
                    (''format'', JStr ''yyyy-MM-dd HH:mm:ss'')])])])]"

definition severity_breakdown_query :: "string \<Rightarrow> json" where
  "severity_breakdown_query es_time_range =
     JObj [(''size'', JInt 0),
           (''query'', range_filter es_time_range),
           (''aggs'', JObj [(''severity_breakdown'', JObj [(''terms'',
              JObj [(''field'', JStr ''rule.level''), (''size'', JInt 20)])])])]"

definition top_rules_query :: "string \<Rightarrow> json" where
  "top_rules_query es_time_range =
     JObj [(''size'', JInt 0),
           (''query'', range_filter es_time_range),
           (''aggs'', JObj [(''top_rules'', JObj [(''terms'',
              JObj [(''field'', JStr ''rule.description''), (''size'', JInt 10)])])])]"

definition top_agents_query :: json where
  "top_agents_query =
     JObj [(''query'', JObj [(''match_all'', JObj [])]),
           (''size'', JInt 0),
           (''aggs'', JObj [(''top_agents'', JObj [(''terms'',
              JObj [(''field'', JStr ''agent.name''), (''size'', JInt 10)])])])]"

definition top_source_ips_query :: "string \<Rightarrow> json" where
  "top_source_ips_query es_time_range =
     JObj [(''query'', range_filter es_time_range),
           (''size'', JInt 0),
           (''aggs'', JObj [(''top_source_ips'',
              JObj [(''terms'',
                       JObj [(''field'', JStr ''data.office365.ClientIP''), (''size'', JInt 10)]),
                    (''aggs'', JObj [(''country'', JObj [(''terms'',
                       JObj [(''field'', JStr ''GeoLocation.country_name''),
                             (''size'', JInt 1)])])])])])]"

definition alert_trends_query :: "string \<Rightarrow> json" where
  "alert_trends_query es_time_range =
     JObj [(''size'', JInt 0),
           (''query'', range_filter es_time_range),
           (''aggs'', JObj [(''daily_trends'', JObj [(''date_histogram'',
              JObj [(''field'', JStr ''@timestamp''),
                    (''calendar_interval'', JStr ''day''),
                    (''format'', JStr ''yyyy-MM-dd'')])])])]"

definition agent_status_query :: json where
  "agent_status_query =
     JObj [(''size'', JInt 0),
           (''query'', JObj [(''bool'',
              JObj [(''must'', JList [JObj [(''range'',
                       JObj [(''timestamp'', JObj [(''gte'', JStr ''now-2h'')])])]]),
                    (''must_not'', JList [JObj [(''term'',
                       JObj [(''id'', JStr ''000'')])]])])]),
           (''aggs'', JObj [(''agents'',
              JObj [(''terms'', JObj [(''field'', JStr ''id''), (''size'', JInt 1000)]),
                    (''aggs'', JObj [(''latest'', JObj [(''top_hits'',
                       JObj [(''size'', JInt 1),
                             (''sort'', JList [JObj [(''timestamp'', JStr ''desc'')]]),
                             (''_source'', JList [JStr ''status'', JStr ''name''])])])])])])]"

subsection \<open>The reduction of each response\<close>

text \<open>
  \<^verbatim>\<open>result.get("aggregations", {}).get(name, {}).get("buckets", [])\<close>, the first
  statement after the search in every fragment.
\<close>

definition agg_buckets :: "json \<Rightarrow> string \<Rightarrow> exn + json" where
  "agg_buckets result name =
     and_then (py_get result ''aggregations'' (JObj [])) (\<lambda>aggs.
     and_then (py_get aggs name (JObj [])) (\<lambda>agg.
     py_get agg ''buckets'' (JList [])))"

text \<open>
  Each fragment function is a \<^verbatim>\<open>try\<close> block (the search, then the reduction of its
  result, named \<open>_try\<close> here) and an \<^verbatim>\<open>except Exception\<close> clause that returns the
  fragment's empty value. The functions keep their names without the leading underscore.
\<close>

definition alerts_per_hour_entry :: "json \<Rightarrow> exn + json" where
  "alerts_per_hour_entry bucket =
     and_then (py_index bucket ''key_as_string'') (\<lambda>t.
     and_then (py_index bucket ''doc_count'') (\<lambda>n.
     Inr (JObj [(''timestamp'', t), (''count'', n)])))"

definition alerts_per_hour_try :: "json \<Rightarrow> exn + dict" where
  "alerts_per_hour_try result =
     and_then (agg_buckets result ''alerts_per_hour'') (\<lambda>buckets.
     and_then (py_iter buckets) (\<lambda>bs.
     and_then (map_exn alerts_per_hour_entry bs) (\<lambda>alerts_per_hour.
     Inr [(''alerts_per_hour'', JList alerts_per_hour)])))"

definition get_alerts_per_hour ::
  "connector \<Rightarrow> backend \<Rightarrow> string \<Rightarrow> string \<Rightarrow> string \<Rightarrow> dict" where
  "get_alerts_per_hour c be index es_time_range interval =
     (case and_then (search c be index (alerts_per_hour_query es_time_range interval))
             alerts_per_hour_try of
        Inr d \<Rightarrow> d
      | Inl e \<Rightarrow> [(''alerts_per_hour'', JList [])])"

text \<open>The four bands of \<^verbatim>\<open>severity_summary\<close>, a dict with these keys in this order.\<close>

record bands =
  critical :: int
  high :: int
  medium :: int
  low :: int

definition severity_entry :: "builtins \<Rightarrow> json \<Rightarrow> exn + int \<times> json" where
  "severity_entry py bucket =
     and_then (py_index bucket ''key'') (\<lambda>key.
     and_then (py_int py key) (\<lambda>level.
     and_then (py_index bucket ''doc_count'') (\<lambda>count.
     Inr (level, count))))"

text \<open>The loop \<^verbatim>\<open>for b in severity_data\<close> over the (level, count) entries.\<close>

fun severity_loop :: "bands \<Rightarrow> (int \<times> json) list \<Rightarrow> exn + bands" where
  "severity_loop s [] = Inr s"
| "severity_loop s ((level, cnt) # rest) =
     (if level \<ge> 15 then
        and_then (py_add_int (critical s) cnt) (\<lambda>v. severity_loop (s\<lparr>critical := v\<rparr>) rest)
      else if level \<ge> 12 then
        and_then (py_add_int (high s) cnt) (\<lambda>v. severity_loop (s\<lparr>high := v\<rparr>) rest)
      else if level \<ge> 7 then
        and_then (py_add_int (medium s) cnt) (\<lambda>v. severity_loop (s\<lparr>medium := v\<rparr>) rest)
      else
        and_then (py_add_int (low s) cnt) (\<lambda>v. severity_loop (s\<lparr>low := v\<rparr>) rest))"

definition severity_data_json :: "(int \<times> json) list \<Rightarrow> json" where
  "severity_data_json severity_data =
     JList (map (\<lambda>b. JObj [(''level'', JInt (fst b)), (''count'', snd b)]) severity_data)"

definition bands_json :: "bands \<Rightarrow> json" where
  "bands_json s =
     JObj [(''critical'', JInt (critical s)), (''high'', JInt (high s)),
           (''medium'', JInt (medium s)), (''low'', JInt (low s))]"

definition severity_breakdown_try :: "builtins \<Rightarrow> json \<Rightarrow> exn + dict" where
  "severity_breakdown_try py result =
     and_then (agg_buckets result ''severity_breakdown'') (\<lambda>buckets.
     and_then (py_iter buckets) (\<lambda>bs.
     and_then (map_exn (severity_entry py) bs) (\<lambda>severity_data.
     and_then (severity_loop \<lparr>critical = 0, high = 0, medium = 0, low = 0\<rparr> severity_data)
       (\<lambda>severity_summary.
     Inr [(''severity_breakdown'', severity_data_json severity_data),
          (''severity_summary'', bands_json severity_summary)]))))"

definition get_severity_breakdown ::
  "builtins \<Rightarrow> connector \<Rightarrow> backend \<Rightarrow> string \<Rightarrow> string \<Rightarrow> dict" where
  "get_severity_breakdown py c be index es_time_range =
     (case and_then (search c be index (severity_breakdown_query es_time_range))
             (severity_breakdown_try py) of
        Inr d \<Rightarrow> d
      | Inl e \<Rightarrow> [(''severity_breakdown'', JList []), (''severity_summary'', JObj [])])"

definition top_rules_entry :: "json \<Rightarrow> exn + json" where
  "top_rules_entry bucket =
     and_then (py_index bucket ''key'') (\<lambda>k.
     and_then (py_index bucket ''doc_count'') (\<lambda>n.
     Inr (JObj [(''description'', k), (''count'', n)])))"

definition top_rules_try :: "json \<Rightarrow> exn + dict" where
  "top_rules_try result =
     and_then (agg_buckets result ''top_rules'') (\<lambda>buckets.
     and_then (py_iter buckets) (\<lambda>bs.
     and_then (map_exn top_rules_entry bs) (\<lambda>top_rules.
     Inr [(''top_rules'', JList top_rules)])))"

definition get_top_rules :: "connector \<Rightarrow> backend \<Rightarrow> string \<Rightarrow> string \<Rightarrow> dict" where
  "get_top_rules c be index es_time_range =
     (case and_then (search c be index (top_rules_query es_time_range)) top_rules_try of
        Inr d \<Rightarrow> d
      | Inl e \<Rightarrow> [(''top_rules'', JList [])])"

definition top_agents_entry :: "json \<Rightarrow> exn + json" where
  "top_agents_entry bucket =
     and_then (py_index bucket ''key'') (\<lambda>k.
     and_then (py_index bucket ''doc_count'') (\<lambda>n.
     Inr (JObj [(''agent_name'', k), (''count'', n)])))"

definition top_agents_try :: "json \<Rightarrow> exn + dict" where
  "top_agents_try result =
     and_then (agg_buckets result ''top_agents'') (\<lambda>buckets.
     and_then (py_iter buckets) (\<lambda>bs.
     and_then (map_exn top_agents_entry bs) (\<lambda>top_agents.
     Inr [(''top_agents'', JList top_agents)])))"

definition get_top_agents :: "connector \<Rightarrow> backend \<Rightarrow> string \<Rightarrow> dict" where
  "get_top_agents c be index =
     (case and_then (search c be index top_agents_query) top_agents_try of
        Inr d \<Rightarrow> d
      | Inl e \<Rightarrow> [(''top_agents'', JList [])])"

text \<open>
  \<^verbatim>\<open>bucket.get("country", {}).get("buckets", [{}])[0].get("key", "Unknown")\<close>
\<close>

definition bucket_country :: "json \<Rightarrow> exn + json" where
  "bucket_country bucket =
     and_then (py_get bucket ''country'' (JObj [])) (\<lambda>country.
     and_then (py_get country ''buckets'' (JList [JObj []])) (\<lambda>entries.
     and_then (py_first entries) (\<lambda>entry.
     py_get entry ''key'' (JStr ''Unknown''))))"

definition top_ip_entry :: "json \<Rightarrow> exn + json" where
  "top_ip_entry bucket =
     and_then (py_index bucket ''key'') (\<lambda>ip.
     and_then (py_index bucket ''doc_count'') (\<lambda>n.
     and_then (bucket_country bucket) (\<lambda>country.
     Inr (JObj [(''ip'', ip), (''count'', n), (''country'', country)]))))"

text \<open>The comprehension with its condition, which is evaluated before the entry.\<close>

fun top_ips_entries :: "json list \<Rightarrow> exn + json list" where
  "top_ips_entries [] = Inr []"
| "top_ips_entries (bucket # rest) =
     and_then (py_index bucket ''key'') (\<lambda>key.
       if key \<notin> set [JStr '''', JStr ''0.0.0.0''] then
         and_then (top_ip_entry bucket) (\<lambda>entry.
         and_then (top_ips_entries rest) (\<lambda>entries. Inr (entry # entries)))
       else top_ips_entries rest)"

definition top_source_ips_try :: "json \<Rightarrow> exn + dict" where
  "top_source_ips_try result =
     and_then (agg_buckets result ''top_source_ips'') (\<lambda>buckets.
     and_then (py_iter buckets) (\<lambda>bs.
     and_then (top_ips_entries bs) (\<lambda>top_ips.
     Inr [(''top_source_ips'', JList top_ips)])))"

definition get_top_source_ips :: "connector \<Rightarrow> backend \<Rightarrow> string \<Rightarrow> string \<Rightarrow> dict" where
  "get_top_source_ips c be index es_time_range =
     (case and_then (search c be index (top_source_ips_query es_time_range))
             top_source_ips_try of
        Inr d \<Rightarrow> d
      | Inl e \<Rightarrow> [(''top_source_ips'', JList [])])"

definition alert_trends_entry :: "json \<Rightarrow> exn + json" where
  "alert_trends_entry bucket =
     and_then (py_index bucket ''key_as_string'') (\<lambda>t.
     and_then (py_index bucket ''doc_count'') (\<lambda>n.
     Inr (JObj [(''date'', t), (''count'', n)])))"

definition alert_trends_try :: "json \<Rightarrow> exn + dict" where
  "alert_trends_try result =
     and_then (agg_buckets result ''daily_trends'') (\<lambda>buckets.
     and_then (py_iter buckets) (\<lambda>bs.
     and_then (map_exn alert_trends_entry bs) (\<lambda>trends.
     Inr [(''alert_trends'', JList trends)])))"

definition get_alert_trends :: "connector \<Rightarrow> backend \<Rightarrow> string \<Rightarrow> string \<Rightarrow> dict" where
  "get_alert_trends c be index es_time_range =
     (case and_then (search c be index (alert_trends_query es_time_range)) alert_trends_try of
        Inr d \<Rightarrow> d
      | Inl e \<Rightarrow> [(''alert_trends'', JList [])])"

text \<open>\<^verbatim>\<open>bucket.get("latest", {}).get("hits", {}).get("hits", [])\<close>\<close>

definition latest_hits_of :: "json \<Rightarrow> exn + json" where
  "latest_hits_of bucket =
     and_then (py_get bucket ''latest'' (JObj [])) (\<lambda>latest.
     and_then (py_get latest ''hits'' (JObj [])) (\<lambda>hits.
     py_get hits ''hits'' (JList [])))"

text \<open>\<^verbatim>\<open>latest_hits[0].get("_source", {}).get("status", "").lower()\<close>\<close>

definition latest_status :: "json \<Rightarrow> exn + string" where
  "latest_status latest_hits =
     and_then (py_first latest_hits) (\<lambda>hit.
     and_then (py_get hit ''_source'' (JObj [])) (\<lambda>source.
     and_then (py_get source ''status'' (JStr '''')) py_lower))"

text \<open>The loop \<^verbatim>\<open>for bucket in buckets\<close> with the counters \<open>(online, offline)\<close>.\<close>

fun agent_status_loop :: "int \<times> int \<Rightarrow> json list \<Rightarrow> exn + int \<times> int" where
  "agent_status_loop (online, offline) [] = Inr (online, offline)"
| "agent_status_loop (online, offline) (bucket # rest) =
     and_then (latest_hits_of bucket) (\<lambda>latest_hits.
       if py_truthy latest_hits then
         and_then (latest_status latest_hits) (\<lambda>status.
           if status \<in> set [''active'', ''connected'']
           then agent_status_loop (online + 1, offline) rest
           else agent_status_loop (online, offline + 1) rest)
       else agent_status_loop (online, offline) rest)"

definition agent_health_json :: "int \<times> int \<Rightarrow> json" where
  "agent_health_json counters =
     JObj [(''total'', JInt (fst counters + snd counters)),
           (''online'', JInt (fst counters)),
           (''offline'', JInt (snd counters))]"

definition agent_status_try :: "json \<Rightarrow> exn + dict" where
  "agent_status_try result =
     and_then (agg_buckets result ''agents'') (\<lambda>buckets.
     and_then (py_iter buckets) (\<lambda>bs.
     and_then (agent_status_loop (0, 0) bs) (\<lambda>counters.
     Inr [(''agent_health'', agent_health_json counters)])))"

definition get_agent_status :: "connector \<Rightarrow> backend \<Rightarrow> string \<Rightarrow> dict" where
  "get_agent_status c be index =
     (case and_then (search c be index agent_status_query) agent_status_try of
        Inr d \<Rightarrow> d
      | Inl e \<Rightarrow> [(''agent_health'', agent_health_json (0, 0))])"

subsection \<open>The statistics call\<close>

text \<open>
  \<^verbatim>\<open>table.get(key, default)\<close> on a dict with string keys, for a key that is any
  JSON value: a list or an object is unhashable and the lookup raises
  \<^verbatim>\<open>TypeError\<close>; any other value that is not a string equals no key.
\<close>

fun table_get :: "(string \<times> string) list \<Rightarrow> json \<Rightarrow> string \<Rightarrow> exn + string" where
  "table_get table (JStr s) dflt = Inr (case map_of table s of Some v \<Rightarrow> v | None \<Rightarrow> dflt)"
| "table_get table (JList xs) dflt = Inl TypeError"
| "table_get table (JObj kvs) dflt = Inl TypeError"
| "table_get table JNull dflt = Inr dflt"
| "table_get table (JBool b) dflt = Inr dflt"
| "table_get table (JInt n) dflt = Inr dflt"

definition time_map :: "(string \<times> string) list" where
  "time_map = [(''24h'', ''now-24h''), (''7d'', ''now-7d''), (''30d'', ''now-30d'')]"

definition interval_map :: "(string \<times> string) list" where
  "interval_map = [(''24h'', ''1h''), (''7d'', ''6h''), (''30d'', ''1d'')]"

text \<open>The two index patterns; \<^verbatim>\<open>if client_name:\<close> fails for \<^verbatim>\<open>None\<close> and for \<^verbatim>\<open>""\<close>.\<close>

definition alert_index_of :: "string option \<Rightarrow> string" where
  "alert_index_of name =
     (case name of
        Some n \<Rightarrow> if n \<noteq> [] then n @ '':wazuh-alerts-*'' else ''wazuh-alerts-*''
      | None \<Rightarrow> ''wazuh-alerts-*'')"

definition monitoring_index_of :: "string option \<Rightarrow> string" where
  "monitoring_index_of name =
     (case name of
        Some n \<Rightarrow> if n \<noteq> [] then n @ '':wazuh-monitoring-*'' else ''wazuh-monitoring-*''
      | None \<Rightarrow> ''wazuh-monitoring-*'')"

text \<open>\<^verbatim>\<open>d.values()\<close> and \<^verbatim>\<open>sum\<close>, which starts from the integer 0.\<close>

fun py_values :: "json \<Rightarrow> exn + json list" where
  "py_values (JObj kvs) = Inr (map snd kvs)"
| "py_values JNull = Inl AttributeError"
| "py_values (JBool b) = Inl AttributeError"
| "py_values (JInt n) = Inl AttributeError"
| "py_values (JStr s) = Inl AttributeError"
| "py_values (JList xs) = Inl AttributeError"

fun py_sum :: "int \<Rightarrow> json list \<Rightarrow> exn + int" where
  "py_sum acc [] = Inr acc"
| "py_sum acc (v # vs) = and_then (py_add_int acc v) (\<lambda>a. py_sum a vs)"

text \<open>
  The statements of the \<^verbatim>\<open>try\<close> block of \<^verbatim>\<open>get_dashboard_statistics\<close>, once the
  time range and the histogram interval are known.
\<close>

definition collect_stats ::
  "builtins \<Rightarrow> connector \<Rightarrow> backend \<Rightarrow> string \<Rightarrow> string \<Rightarrow> string \<Rightarrow> string \<Rightarrow> exn + dict"
  where
  "collect_stats py es_connector be alert_index monitoring_index es_time_range
       histogram_interval =
     (let stats = [];
          stats = dict_update stats
            (get_alerts_per_hour es_connector be alert_index es_time_range histogram_interval);
          sev_result = get_severity_breakdown py es_connector be alert_index es_time_range;
          stats = dict_update stats
            [(''severity_breakdown'', dict_get sev_result ''severity_breakdown'' (JList []))];
          stats = dict_update stats
            [(''severity_summary'', dict_get sev_result ''severity_summary'' (JObj []))];
          stats = dict_update stats (get_top_rules es_connector be alert_index es_time_range);
          stats = dict_update stats (get_top_agents es_connector be alert_index);
          stats = dict_update stats
            (get_top_source_ips es_connector be alert_index es_time_range);
          stats = dict_update stats (get_alert_trends es_connector be alert_index es_time_range);
          stats = dict_update stats (get_agent_status es_connector be monitoring_index);
          summary = dict_get stats ''severity_summary'' (JObj [])
      in and_then (py_get summary ''critical'' (JInt 0)) (\<lambda>critical_alerts.
         and_then (if py_truthy summary
                   then and_then (py_values summary) (py_sum 0)
                   else Inr 0) (\<lambda>total_alerts.
         Inr (dict_set (dict_set stats ''critical_alerts'' critical_alerts)
                ''total_alerts'' (JInt total_alerts)))))"

definition dashboard_try ::
  "builtins \<Rightarrow> string \<Rightarrow> backend \<Rightarrow> string option \<Rightarrow> json \<Rightarrow> exn + dict" where
  "dashboard_try py url be name time_range =
     (let es_connector = ElasticsearchConnector url name;
          alert_index = alert_index_of name;
          monitoring_index = monitoring_index_of name
      in and_then (table_get time_map time_range ''now-24h'') (\<lambda>es_time_range.
         and_then (table_get interval_map time_range ''1h'') (\<lambda>histogram_interval.
         collect_stats py es_connector be alert_index monitoring_index es_time_range
           histogram_interval)))"

text \<open>The object that the \<^verbatim>\<open>except Exception\<close> clause of the statistics call returns.\<close>

definition failure_stats :: "builtins \<Rightarrow> exn \<Rightarrow> dict" where
  "failure_stats py e =
     [(''error'', JStr (str_of_exn py e)),
      (''alerts_per_hour'', JList []),
      (''severity_breakdown'', JList []),
      (''severity_summary'', JObj []),
      (''top_rules'', JList []),
      (''top_agents'', JList []),
      (''top_source_ips'', JList []),
      (''alert_trends'', JList []),
      (''agent_health'', JObj [(''total'', JInt 0), (''online'', JInt 0), (''offline'', JInt 0)])]"

text \<open>
  \<^verbatim>\<open>get_dashboard_statistics(client_name, time_range)\<close>, run against a backend at
  the base URL of the configuration. \<open>name\<close> is the optional client name;
  \<open>time_range\<close> is the JSON value that the API handler takes from the request body
  and passes on unchecked.
\<close>

definition get_dashboard_statistics ::
  "builtins \<Rightarrow> string \<Rightarrow> backend \<Rightarrow> string option \<Rightarrow> json \<Rightarrow> dict" where
  "get_dashboard_statistics py url be name time_range =
     (case dashboard_try py url be name time_range of
        Inr stats \<Rightarrow> stats
      | Inl e \<Rightarrow> failure_stats py e)"

section \<open>Properties of the search client\<close>



lemma execute_search_request_unfold:
  "execute_search_request (ElasticsearchConnector url name) post =
     search_attempts (ElasticsearchConnector url name) post [0, 1, 2]"
  by (simp add: execute_search_request_def ElasticsearchConnector_def upt_rec
      numeral_2_eq_2 numeral_3_eq_3)

lemma connector_fields [simp]:
  "max_retries (ElasticsearchConnector url name) = 2"
  "retry_backoff (ElasticsearchConnector url name) = 3 / 2"
  "client_name (ElasticsearchConnector url name) = name"
  "indexer_url (ElasticsearchConnector url name) = url"
  by (simp_all add: ElasticsearchConnector_def)

lemma search_events_unfold:
  "search_events (ElasticsearchConnector url name) be index body =
     search_attempts (ElasticsearchConnector url name)
       (be (search_url (ElasticsearchConnector url name) index) body) [0, 1, 2]"
  by (simp add: search_events_def execute_search_request_unfold)






text \<open>
  C2 (amended). \<open>scope_index\<close> returns the pattern unchanged when the tenant is absent
  or the empty string, and when the pattern already contains \<open>:\<close>; otherwise it returns
  the tenant, \<open>:\<close> and the pattern. It is idempotent.
\<close>

theorem scope_index_cases:
  "(client_name c = None \<or> client_name c = Some [] \<longrightarrow> scope_index c pattern = pattern)
   \<and> (CHR '':'' \<in> set pattern \<longrightarrow> scope_index c pattern = pattern)
   \<and> (\<forall>tenant. client_name c = Some tenant \<and> tenant \<noteq> [] \<and> CHR '':'' \<notin> set pattern
        \<longrightarrow> scope_index c pattern = tenant @ '':'' @ pattern)
   \<and> scope_index c (scope_index c pattern) = scope_index c pattern"
  by (auto simp: scope_index_def split: option.splits)

theorem scope_index_cases_witness:
  "scope_index (ElasticsearchConnector ''http://es:9200'' None) ''wazuh-alerts-*'' =
     ''wazuh-alerts-*''
   \<and> scope_index (ElasticsearchConnector ''http://es:9200'' (Some ''lab'')) ''lab:wazuh-alerts-*'' =
     ''lab:wazuh-alerts-*''
   \<and> scope_index (ElasticsearchConnector ''http://es:9200'' (Some ''lab'')) ''wazuh-alerts-*'' =
     ''lab:wazuh-alerts-*''
   \<and> scope_index (ElasticsearchConnector ''http://es:9200'' (Some ''lab''))
       (scope_index (ElasticsearchConnector ''http://es:9200'' (Some ''lab'')) ''wazuh-alerts-*'') =
     ''lab:wazuh-alerts-*''"
  using scope_index_cases [of "ElasticsearchConnector ''http://es:9200'' None" "''wazuh-alerts-*''"]
    scope_index_cases [of "ElasticsearchConnector ''http://es:9200'' (Some ''lab'')"
      "''lab:wazuh-alerts-*''"]
    scope_index_cases [of "ElasticsearchConnector ''http://es:9200'' (Some ''lab'')"
      "''wazuh-alerts-*''"]
  by simp

text \<open>
  At the tenant \<open>""\<close>, which is a string and not an absent value, and a pattern
  without \<open>:\<close>, the result is the pattern and not \<open>":" + pattern\<close>.
\<close>

theorem scope_index_empty_tenant:
  "scope_index (ElasticsearchConnector ''http://es:9200'' (Some '''')) ''wazuh-alerts-*'' \<noteq>
     '''' @ '':'' @ ''wazuh-alerts-*''"
  by (simp add: scope_index_def)

section \<open>Properties of the fragment reductions\<close>

lemma map_exn_all2:
  "list_all2 (\<lambda>x y. f x = Inr y) xs ys \<Longrightarrow> map_exn f xs = Inr ys"
  by (induction xs ys rule: list_all2_induct) simp_all

lemma list_all2_map_right:
  "list_all2 (\<lambda>x y. P x (g y)) xs ys \<Longrightarrow> list_all2 P xs (map g ys)"
  by (induction xs ys rule: list_all2_induct) simp_all

subsection \<open>Severity bands\<close>

lemma severity_loop_ints:
  "severity_loop s (map (\<lambda>lc. (fst lc, JInt (snd lc))) levels) =
     Inr \<lparr>critical = critical s + sum_list (map snd (filter (\<lambda>lc. 15 \<le> fst lc) levels)),
          high = high s
            + sum_list (map snd (filter (\<lambda>lc. 12 \<le> fst lc \<and> fst lc < 15) levels)),
          medium = medium s
            + sum_list (map snd (filter (\<lambda>lc. 7 \<le> fst lc \<and> fst lc < 12) levels)),
          low = low s + sum_list (map snd (filter (\<lambda>lc. fst lc < 7) levels))\<rparr>"
proof (induction levels arbitrary: s)
  case Nil
  show ?case by simp
next
  case (Cons lc levels)
  show ?case by (cases lc) (simp add: Cons.IH)
qed

lemma band_sums_total:
  "sum_list (map snd (filter (\<lambda>lc. 15 \<le> fst lc) levels))
   + sum_list (map snd (filter (\<lambda>lc. 12 \<le> fst lc \<and> fst lc < 15) levels))
   + sum_list (map snd (filter (\<lambda>lc. 7 \<le> fst lc \<and> fst lc < 12) levels))
   + sum_list (map snd (filter (\<lambda>lc. fst lc < 7) levels))
   = sum_list (map snd (levels :: (int \<times> int) list))"
  by (induction levels) auto

lemma severity_entries:
  assumes "list_all2 (\<lambda>bucket lc. \<exists>key. py_index bucket ''key'' = Inr key
              \<and> py_int py key = Inr (fst lc)
              \<and> py_index bucket ''doc_count'' = Inr (JInt (snd lc))) buckets levels"
  shows "map_exn (severity_entry py) buckets = Inr (map (\<lambda>lc. (fst lc, JInt (snd lc))) levels)"
proof -
  from assms have "list_all2 (\<lambda>bucket lc. severity_entry py bucket = Inr (fst lc, JInt (snd lc)))
      buckets levels"
    by (rule list_all2_mono) (auto simp: severity_entry_def)
  then have "list_all2 (\<lambda>bucket y. severity_entry py bucket = Inr y) buckets
      (map (\<lambda>lc. (fst lc, JInt (snd lc))) levels)"
    by (rule list_all2_map_right)
  then show ?thesis by (rule map_exn_all2)
qed

text \<open>
  C5. When the engine answers the severity query with buckets whose keys convert to the
  integer levels and whose document counts are the integers of \<open>levels\<close>, the fragment
  lists every (level, count) in order, and the summary holds, for each band, the sum of
  the counts of the levels in it: 15 and above critical, 12 to 14 high, 7 to 11 medium,
  below 7 low. The four sums add up to the sum of all counts: every level is in exactly
  one band.
\<close>

theorem severity_bands_partition:
  assumes "search c be index (severity_breakdown_query es_time_range) = Inr result"
    and "agg_buckets result ''severity_breakdown'' = Inr (JList buckets)"
    and "list_all2 (\<lambda>bucket lc. \<exists>key. py_index bucket ''key'' = Inr key
              \<and> py_int py key = Inr (fst lc)
              \<and> py_index bucket ''doc_count'' = Inr (JInt (snd lc))) buckets levels"
  shows "get_severity_breakdown py c be index es_time_range =
      [(''severity_breakdown'',
          JList (map (\<lambda>lc. JObj [(''level'', JInt (fst lc)), (''count'', JInt (snd lc))]) levels)),
       (''severity_summary'',
          JObj [(''critical'', JInt (sum_list (map snd (filter (\<lambda>lc. 15 \<le> fst lc) levels)))),
                (''high'', JInt (sum_list (map snd
                    (filter (\<lambda>lc. 12 \<le> fst lc \<and> fst lc < 15) levels)))),
                (''medium'', JInt (sum_list (map snd
                    (filter (\<lambda>lc. 7 \<le> fst lc \<and> fst lc < 12) levels)))),
                (''low'', JInt (sum_list (map snd (filter (\<lambda>lc. fst lc < 7) levels))))])]
    \<and> sum_list (map snd (filter (\<lambda>lc. 15 \<le> fst lc) levels))
      + sum_list (map snd (filter (\<lambda>lc. 12 \<le> fst lc \<and> fst lc < 15) levels))
      + sum_list (map snd (filter (\<lambda>lc. 7 \<le> fst lc \<and> fst lc < 12) levels))
      + sum_list (map snd (filter (\<lambda>lc. fst lc < 7) levels))
      = sum_list (map snd levels)"
proof
  have "map_exn (severity_entry py) buckets = Inr (map (\<lambda>lc. (fst lc, JInt (snd lc))) levels)"
    using assms(3) by (rule severity_entries)
  then show "get_severity_breakdown py c be index es_time_range =
      [(''severity_breakdown'',
          JList (map (\<lambda>lc. JObj [(''level'', JInt (fst lc)), (''count'', JInt (snd lc))]) levels)),
       (''severity_summary'',
          JObj [(''critical'', JInt (sum_list (map snd (filter (\<lambda>lc. 15 \<le> fst lc) levels)))),
                (''high'', JInt (sum_list (map snd
                    (filter (\<lambda>lc. 12 \<le> fst lc \<and> fst lc < 15) levels)))),
                (''medium'', JInt (sum_list (map snd
                    (filter (\<lambda>lc. 7 \<le> fst lc \<and> fst lc < 12) levels)))),
                (''low'', JInt (sum_list (map snd (filter (\<lambda>lc. fst lc < 7) levels))))])]"
    using assms(1,2)
    by (simp add: get_severity_breakdown_def severity_breakdown_try_def severity_loop_ints
        severity_data_json_def bands_json_def comp_def)
next
  show "sum_list (map snd (filter (\<lambda>lc. 15 \<le> fst lc) levels))
      + sum_list (map snd (filter (\<lambda>lc. 12 \<le> fst lc \<and> fst lc < 15) levels))
      + sum_list (map snd (filter (\<lambda>lc. 7 \<le> fst lc \<and> fst lc < 12) levels))
      + sum_list (map snd (filter (\<lambda>lc. fst lc < 7) levels))
      = sum_list (map snd levels)"
    by (rule band_sums_total)
qed

theorem severity_bands_partition_witness:
  "get_severity_breakdown \<lparr>int_of_str = (\<lambda>s. None), str_of_exn = (\<lambda>e. [])\<rparr>
     (ElasticsearchConnector ''http://es:9200'' None)
     (\<lambda>u q n. Response 200 (Inr (JObj [(''aggregations'', JObj [(''severity_breakdown'',
        JObj [(''buckets'', JList
          [JObj [(''key'', JInt 18), (''doc_count'', JInt 3)],
           JObj [(''key'', JInt 12), (''doc_count'', JInt 5)],
           JObj [(''key'', JInt 3), (''doc_count'', JInt 2)]])])])])))
     ''wazuh-alerts-*'' ''now-24h'' =
   [(''severity_breakdown'', JList
       [JObj [(''level'', JInt 18), (''count'', JInt 3)],
        JObj [(''level'', JInt 12), (''count'', JInt 5)],
        JObj [(''level'', JInt 3), (''count'', JInt 2)]]),
    (''severity_summary'',
       JObj [(''critical'', JInt 3), (''high'', JInt 5), (''medium'', JInt 0),
             (''low'', JInt 2)])]"
proof -
  let ?buckets = "[JObj [(''key'', JInt 18), (''doc_count'', JInt 3)],
           JObj [(''key'', JInt 12), (''doc_count'', JInt 5)],
           JObj [(''key'', JInt 3), (''doc_count'', JInt 2)]]"
  let ?result = "JObj [(''aggregations'', JObj [(''severity_breakdown'',
        JObj [(''buckets'', JList ?buckets)])])]"
  let ?py = "\<lparr>int_of_str = (\<lambda>s. None), str_of_exn = (\<lambda>e. [])\<rparr>"
  have h1: "search (ElasticsearchConnector ''http://es:9200'' None)
      (\<lambda>u q n. Response 200 (Inr ?result)) ''wazuh-alerts-*''
      (severity_breakdown_query ''now-24h'') = Inr ?result"
    by (simp add: search_def search_events_unfold)
  have h2: "agg_buckets ?result ''severity_breakdown'' = Inr (JList ?buckets)"
    by (simp add: agg_buckets_def)
  have h3: "list_all2 (\<lambda>bucket lc. \<exists>key. py_index bucket ''key'' = Inr key
              \<and> py_int ?py key = Inr (fst lc)
              \<and> py_index bucket ''doc_count'' = Inr (JInt (snd lc)))
      ?buckets [(18, 3), (12, 5), (3, 2)]"
    by simp
  from severity_bands_partition [OF h1 h2 h3] show ?thesis by simp
qed

subsection \<open>Time series and trends\<close>

lemma alerts_per_hour_entries:
  assumes "list_all2 (\<lambda>bucket tn. py_index bucket ''key_as_string'' = Inr (fst tn)
              \<and> py_index bucket ''doc_count'' = Inr (snd tn)) buckets series"
  shows "map_exn alerts_per_hour_entry buckets =
           Inr (map (\<lambda>tn. JObj [(''timestamp'', fst tn), (''count'', snd tn)]) series)"
proof -
  from assms have "list_all2 (\<lambda>bucket tn. alerts_per_hour_entry bucket
        = Inr (JObj [(''timestamp'', fst tn), (''count'', snd tn)])) buckets series"
    by (rule list_all2_mono) (auto simp: alerts_per_hour_entry_def)
  then have "list_all2 (\<lambda>bucket y. alerts_per_hour_entry bucket = Inr y) buckets
      (map (\<lambda>tn. JObj [(''timestamp'', fst tn), (''count'', snd tn)]) series)"
    by (rule list_all2_map_right)
  then show ?thesis by (rule map_exn_all2)
qed

lemma alert_trends_entries:
  assumes "list_all2 (\<lambda>bucket tn. py_index bucket ''key_as_string'' = Inr (fst tn)
              \<and> py_index bucket ''doc_count'' = Inr (snd tn)) buckets series"
  shows "map_exn alert_trends_entry buckets =
           Inr (map (\<lambda>tn. JObj [(''date'', fst tn), (''count'', snd tn)]) series)"
proof -
  from assms have "list_all2 (\<lambda>bucket tn. alert_trends_entry bucket
        = Inr (JObj [(''date'', fst tn), (''count'', snd tn)])) buckets series"
    by (rule list_all2_mono) (auto simp: alert_trends_entry_def)
  then have "list_all2 (\<lambda>bucket y. alert_trends_entry bucket = Inr y) buckets
      (map (\<lambda>tn. JObj [(''date'', fst tn), (''count'', snd tn)]) series)"
    by (rule list_all2_map_right)
  then show ?thesis by (rule map_exn_all2)
qed

text \<open>
  C9 (amended). When the engine answers the time-series query with buckets that carry a
  formatted key and a document count, \<open>alerts_per_hour\<close> lists
  \<open>{timestamp: key, count: document count}\<close> for each bucket, in the engine's order;
  under the same condition on the trends query, \<open>alert_trends\<close> lists
  \<open>{date: key, count: document count}\<close> for each bucket, in the engine's order.
\<close>

theorem series_and_trends_entries:
  assumes "search c be index (alerts_per_hour_query es_time_range interval) = Inr result"
    and "agg_buckets result ''alerts_per_hour'' = Inr (JList buckets)"
    and "list_all2 (\<lambda>bucket tn. py_index bucket ''key_as_string'' = Inr (fst tn)
              \<and> py_index bucket ''doc_count'' = Inr (snd tn)) buckets series"
    and "search c be index (alert_trends_query es_time_range) = Inr result'"
    and "agg_buckets result' ''daily_trends'' = Inr (JList buckets')"
    and "list_all2 (\<lambda>bucket tn. py_index bucket ''key_as_string'' = Inr (fst tn)
              \<and> py_index bucket ''doc_count'' = Inr (snd tn)) buckets' series'"
  shows "get_alerts_per_hour c be index es_time_range interval =
      [(''alerts_per_hour'',
          JList (map (\<lambda>tn. JObj [(''timestamp'', fst tn), (''count'', snd tn)]) series))]
    \<and> get_alert_trends c be index es_time_range =
      [(''alert_trends'',
          JList (map (\<lambda>tn. JObj [(''date'', fst tn), (''count'', snd tn)]) series'))]"
proof
  show "get_alerts_per_hour c be index es_time_range interval =
      [(''alerts_per_hour'',
          JList (map (\<lambda>tn. JObj [(''timestamp'', fst tn), (''count'', snd tn)]) series))]"
    using assms(1,2) alerts_per_hour_entries [OF assms(3)]
    by (simp add: get_alerts_per_hour_def alerts_per_hour_try_def)
next
  show "get_alert_trends c be index es_time_range =
      [(''alert_trends'',
          JList (map (\<lambda>tn. JObj [(''date'', fst tn), (''count'', snd tn)]) series'))]"
    using assms(4,5) alert_trends_entries [OF assms(6)]
    by (simp add: get_alert_trends_def alert_trends_try_def)
qed

theorem series_and_trends_entries_witness:
  "get_alerts_per_hour (ElasticsearchConnector ''http://es:9200'' None)
     (\<lambda>u q n. Response 200 (Inr (JObj [(''aggregations'', JObj
        [(''alerts_per_hour'', JObj [(''buckets'', JList
            [JObj [(''key_as_string'', JStr ''2024-05-01 10:00:00''), (''doc_count'', JInt 4)],
             JObj [(''key_as_string'', JStr ''2024-05-01 11:00:00''), (''doc_count'', JInt 0)]])]),
         (''daily_trends'', JObj [(''buckets'', JList
            [JObj [(''key_as_string'', JStr ''2024-05-01''), (''doc_count'', JInt 4)]])])])])))
     ''wazuh-alerts-*'' ''now-24h'' ''1h'' =
     [(''alerts_per_hour'', JList
        [JObj [(''timestamp'', JStr ''2024-05-01 10:00:00''), (''count'', JInt 4)],
         JObj [(''timestamp'', JStr ''2024-05-01 11:00:00''), (''count'', JInt 0)]])]
   \<and> get_alert_trends (ElasticsearchConnector ''http://es:9200'' None)
     (\<lambda>u q n. Response 200 (Inr (JObj [(''aggregations'', JObj
        [(''alerts_per_hour'', JObj [(''buckets'', JList
            [JObj [(''key_as_string'', JStr ''2024-05-01 10:00:00''), (''doc_count'', JInt 4)],
             JObj [(''key_as_string'', JStr ''2024-05-01 11:00:00''), (''doc_count'', JInt 0)]])]),
         (''daily_trends'', JObj [(''buckets'', JList
            [JObj [(''key_as_string'', JStr ''2024-05-01''), (''doc_count'', JInt 4)]])])])])))
     ''wazuh-alerts-*'' ''now-24h'' =
     [(''alert_trends'', JList [JObj [(''date'', JStr ''2024-05-01''), (''count'', JInt 4)]])]"
proof -
  let ?hourly = "[JObj [(''key_as_string'', JStr ''2024-05-01 10:00:00''), (''doc_count'', JInt 4)],
             JObj [(''key_as_string'', JStr ''2024-05-01 11:00:00''), (''doc_count'', JInt 0)]]"
  let ?daily = "[JObj [(''key_as_string'', JStr ''2024-05-01''), (''doc_count'', JInt 4)]]"
  let ?result = "JObj [(''aggregations'', JObj
        [(''alerts_per_hour'', JObj [(''buckets'', JList ?hourly)]),
         (''daily_trends'', JObj [(''buckets'', JList ?daily)])])]"
  let ?c = "ElasticsearchConnector ''http://es:9200'' None"
  let ?be = "\<lambda>u q n. Response 200 (Inr ?result)"
  have h1: "search ?c ?be ''wazuh-alerts-*'' (alerts_per_hour_query ''now-24h'' ''1h'')
      = Inr ?result"
    by (simp add: search_def search_events_unfold)
  have h2: "agg_buckets ?result ''alerts_per_hour'' = Inr (JList ?hourly)"
    by (simp add: agg_buckets_def)
  have h3: "list_all2 (\<lambda>bucket tn. py_index bucket ''key_as_string'' = Inr (fst tn)
              \<and> py_index bucket ''doc_count'' = Inr (snd tn)) ?hourly
      [(JStr ''2024-05-01 10:00:00'', JInt 4), (JStr ''2024-05-01 11:00:00'', JInt 0)]"
    by simp
  have h4: "search ?c ?be ''wazuh-alerts-*'' (alert_trends_query ''now-24h'') = Inr ?result"
    by (simp add: search_def search_events_unfold)
  have h5: "agg_buckets ?result ''daily_trends'' = Inr (JList ?daily)"
    by (simp add: agg_buckets_def)
  have h6: "list_all2 (\<lambda>bucket tn. py_index bucket ''key_as_string'' = Inr (fst tn)
              \<and> py_index bucket ''doc_count'' = Inr (snd tn)) ?daily
      [(JStr ''2024-05-01'', JInt 4)]"
    by simp
  from series_and_trends_entries [OF h1 h2 h3 h4 h5 h6] show ?thesis by simp
qed

text \<open>
  The trends entry of a bucket with key \<open>2024-05-01\<close> and count 4 is not
  \<open>{timestamp: "2024-05-01", count: 4}\<close>.
\<close>

theorem alert_trends_entry_has_no_timestamp:
  "get_alert_trends (ElasticsearchConnector ''http://es:9200'' None)
     (\<lambda>u q n. Response 200 (Inr (JObj [(''aggregations'', JObj
         [(''daily_trends'', JObj [(''buckets'', JList
            [JObj [(''key_as_string'', JStr ''2024-05-01''), (''doc_count'', JInt 4)]])])])])))
     ''wazuh-alerts-*'' ''now-24h'' \<noteq>
     [(''alert_trends'', JList [JObj [(''timestamp'', JStr ''2024-05-01''), (''count'', JInt 4)]])]"
  by (simp add: get_alert_trends_def search_def search_events_unfold alert_trends_try_def
      agg_buckets_def alert_trends_entry_def)

subsection \<open>Agent health\<close>

lemma agent_status_loop_counts:
  assumes "list_all2 (\<lambda>bucket st. case st of
              None \<Rightarrow> latest_hits_of bucket = Inr (JList [])
            | Some raw \<Rightarrow> (\<exists>hit rest source.
                latest_hits_of bucket = Inr (JList (hit # rest))
                \<and> py_get hit ''_source'' (JObj []) = Inr source
                \<and> py_get source ''status'' (JStr []) = Inr (JStr raw))) buckets statuses"
  shows "agent_status_loop (online, offline) buckets =
      Inr (online + int (length (filter (\<lambda>st. \<exists>raw. st = Some raw
               \<and> map lower_char raw \<in> {''active'', ''connected''}) statuses)),
           offline + int (length (filter (\<lambda>st. \<exists>raw. st = Some raw
               \<and> map lower_char raw \<notin> {''active'', ''connected''}) statuses)))"
  using assms
proof (induction buckets statuses arbitrary: online offline rule: list_all2_induct)
  case Nil
  show ?case by simp
next
  case (Cons bucket buckets st statuses)
  show ?case
  proof (cases st)
    case None
    with Cons.hyps(1) have "latest_hits_of bucket = Inr (JList [])" by simp
    with None show ?thesis by (simp add: Cons.IH)
  next
    case (Some raw)
    with Cons.hyps(1) obtain hit rest source where
      hits: "latest_hits_of bucket = Inr (JList (hit # rest))"
      and src: "py_get hit ''_source'' (JObj []) = Inr source"
      and status: "py_get source ''status'' (JStr []) = Inr (JStr raw)"
      by auto
    have "latest_status (JList (hit # rest)) = Inr (map lower_char raw)"
      by (simp add: latest_status_def src status)
    with hits Some show ?thesis by (simp add: Cons.IH)
  qed
qed

lemma agent_counts_total:
  "int (length (filter (\<lambda>st. \<exists>raw. st = Some raw
        \<and> map lower_char raw \<in> {''active'', ''connected''}) statuses))
   + int (length (filter (\<lambda>st. \<exists>raw. st = Some raw
        \<and> map lower_char raw \<notin> {''active'', ''connected''}) statuses))
   = int (length (filter (\<lambda>st. st \<noteq> None) (statuses :: string option list)))"
  by (induction statuses) auto

text \<open>
  C10. Let the engine answer the agent query with buckets of which each has a list of
  latest hits, empty (\<open>None\<close> in \<open>statuses\<close>) or starting with a record whose status
  string is \<open>raw\<close> (\<open>Some raw\<close>; a record without a status has the status \<open>""\<close>).
  Then \<open>total\<close> is the number of buckets with a latest hit, \<open>online\<close> the number of
  those whose lowercased status is \<open>active\<close> or \<open>connected\<close>, \<open>offline\<close> the
  number of the others with a latest hit: a bucket without a latest hit is in neither.
\<close>

theorem agent_health_counts:
  assumes "search c be index agent_status_query = Inr result"
    and "agg_buckets result ''agents'' = Inr (JList buckets)"
    and "list_all2 (\<lambda>bucket st. case st of
              None \<Rightarrow> latest_hits_of bucket = Inr (JList [])
            | Some raw \<Rightarrow> (\<exists>hit rest source.
                latest_hits_of bucket = Inr (JList (hit # rest))
                \<and> py_get hit ''_source'' (JObj []) = Inr source
                \<and> py_get source ''status'' (JStr []) = Inr (JStr raw))) buckets statuses"
  shows "get_agent_status c be index =
      [(''agent_health'',
        JObj [(''total'', JInt (int (length (filter (\<lambda>st. st \<noteq> None) statuses)))),
              (''online'', JInt (int (length (filter (\<lambda>st. \<exists>raw. st = Some raw
                  \<and> map lower_char raw \<in> {''active'', ''connected''}) statuses)))),
              (''offline'', JInt (int (length (filter (\<lambda>st. \<exists>raw. st = Some raw
                  \<and> map lower_char raw \<notin> {''active'', ''connected''}) statuses))))])]"
  using assms(1,2) agent_status_loop_counts [OF assms(3), of 0 0]
    agent_counts_total [of statuses]
  by (simp add: get_agent_status_def agent_status_try_def agent_health_json_def)

theorem agent_health_counts_witness:
  "get_agent_status (ElasticsearchConnector ''http://es:9200'' None)
     (\<lambda>u q n. Response 200 (Inr (JObj [(''aggregations'', JObj [(''agents'',
        JObj [(''buckets'', JList
          [JObj [(''key'', JStr ''001''), (''latest'', JObj [(''hits'', JObj [(''hits'',
             JList [JObj [(''_source'', JObj [(''status'', JStr ''Active'')])]])])])],
           JObj [(''key'', JStr ''002''), (''latest'', JObj [(''hits'', JObj [(''hits'',
             JList [])])])],
           JObj [(''key'', JStr ''003''), (''latest'', JObj [(''hits'', JObj [(''hits'',
             JList [JObj [(''_source'', JObj [(''status'', JStr ''disconnected'')])]])])])]])])])])))
     ''wazuh-monitoring-*'' =
   [(''agent_health'', JObj [(''total'', JInt 2), (''online'', JInt 1), (''offline'', JInt 1)])]"
proof -
  let ?b1 = "JObj [(''key'', JStr ''001''), (''latest'', JObj [(''hits'', JObj [(''hits'',
             JList [JObj [(''_source'', JObj [(''status'', JStr ''Active'')])]])])])]"
  let ?b2 = "JObj [(''key'', JStr ''002''), (''latest'', JObj [(''hits'', JObj [(''hits'',
             JList [])])])]"
  let ?b3 = "JObj [(''key'', JStr ''003''), (''latest'', JObj [(''hits'', JObj [(''hits'',
             JList [JObj [(''_source'', JObj [(''status'', JStr ''disconnected'')])]])])])]"
  let ?result = "JObj [(''aggregations'', JObj [(''agents'',
        JObj [(''buckets'', JList [?b1, ?b2, ?b3])])])]"
  have h1: "search (ElasticsearchConnector ''http://es:9200'' None)
      (\<lambda>u q n. Response 200 (Inr ?result)) ''wazuh-monitoring-*'' agent_status_query
      = Inr ?result"
    by (simp add: search_def search_events_unfold)
  have h2: "agg_buckets ?result ''agents'' = Inr (JList [?b1, ?b2, ?b3])"
    by (simp add: agg_buckets_def)
  have h3: "list_all2 (\<lambda>bucket st. case st of
              None \<Rightarrow> latest_hits_of bucket = Inr (JList [])
            | Some raw \<Rightarrow> (\<exists>hit rest source.
                latest_hits_of bucket = Inr (JList (hit # rest))
                \<and> py_get hit ''_source'' (JObj []) = Inr source
                \<and> py_get source ''status'' (JStr []) = Inr (JStr raw)))
      [?b1, ?b2, ?b3] [Some ''Active'', None, Some ''disconnected'']"
    by (simp add: latest_hits_of_def)
  from agent_health_counts [OF h1 h2 h3] show ?thesis
    by (simp add: lower_char_def)
qed

subsection \<open>Top source IPs\<close>

lemma top_ip_entry_shape:
  assumes "top_ip_entry bucket = Inr entry" and "py_index bucket ''key'' = Inr key"
  shows "\<exists>n country. entry = JObj [(''ip'', key), (''count'', n), (''country'', country)]"
proof -
  from assms obtain n where n: "py_index bucket ''doc_count'' = Inr n"
    by (cases "py_index bucket ''doc_count''") (simp_all add: top_ip_entry_def)
  from assms n obtain country where "bucket_country bucket = Inr country"
    by (cases "bucket_country bucket") (simp_all add: top_ip_entry_def)
  with assms n show ?thesis by (auto simp: top_ip_entry_def)
qed

text \<open>Whatever the engine answers, no entry of the fragment has an excluded address.\<close>

lemma top_ips_entries_excluded:
  "top_ips_entries buckets = Inr entries \<Longrightarrow>
     \<forall>entry \<in> set entries. \<exists>ip n country.
        entry = JObj [(''ip'', ip), (''count'', n), (''country'', country)]
        \<and> ip \<noteq> JStr [] \<and> ip \<noteq> JStr ''0.0.0.0''"
proof (induction buckets arbitrary: entries)
  case Nil
  then show ?case by simp
next
  case (Cons bucket rest)
  from Cons.prems obtain key where key: "py_index bucket ''key'' = Inr key"
    by (cases "py_index bucket ''key''") simp_all
  show ?case
  proof (cases "key = JStr [] \<or> key = JStr ''0.0.0.0''")
    case True
    with Cons.prems key have "top_ips_entries rest = Inr entries" by auto
    then show ?thesis by (rule Cons.IH)
  next
    case False
    with Cons.prems key have run: "and_then (top_ip_entry bucket) (\<lambda>entry.
         and_then (top_ips_entries rest) (\<lambda>entries. Inr (entry # entries))) = Inr entries"
      by simp
    then obtain entry where entry: "top_ip_entry bucket = Inr entry"
      by (cases "top_ip_entry bucket") simp_all
    with run obtain entries' where rest: "top_ips_entries rest = Inr entries'"
      by (cases "top_ips_entries rest") simp_all
    from run entry rest have entries: "entries = entry # entries'" by simp
    from top_ip_entry_shape [OF entry key] False
    have "\<exists>ip n country. entry = JObj [(''ip'', ip), (''count'', n), (''country'', country)]
        \<and> ip \<noteq> JStr [] \<and> ip \<noteq> JStr ''0.0.0.0''"
      by auto
    with Cons.IH [OF rest] entries show ?thesis by simp
  qed
qed

lemma top_source_ips_try_shape:
  assumes "top_source_ips_try result = Inr d"
  shows "\<exists>bs entries. top_ips_entries bs = Inr entries \<and> d = [(''top_source_ips'', JList entries)]"
proof -
  from assms obtain buckets where b: "agg_buckets result ''top_source_ips'' = Inr buckets"
    by (cases "agg_buckets result ''top_source_ips''") (simp_all add: top_source_ips_try_def)
  with assms obtain bs where bs: "py_iter buckets = Inr bs"
    by (cases "py_iter buckets") (simp_all add: top_source_ips_try_def)
  with assms b obtain entries where e: "top_ips_entries bs = Inr entries"
    by (cases "top_ips_entries bs") (simp_all add: top_source_ips_try_def)
  with assms b bs have "d = [(''top_source_ips'', JList entries)]"
    by (auto simp: top_source_ips_try_def)
  with e show ?thesis by blast
qed

lemma top_source_ips_excluded:
  "\<exists>entries. get_top_source_ips c be index es_time_range = [(''top_source_ips'', JList entries)]
     \<and> (\<forall>entry \<in> set entries. \<exists>ip n country.
          entry = JObj [(''ip'', ip), (''count'', n), (''country'', country)]
          \<and> ip \<noteq> JStr [] \<and> ip \<noteq> JStr ''0.0.0.0'')"
proof (cases "and_then (search c be index (top_source_ips_query es_time_range))
    top_source_ips_try")
  case (Inl e)
  then have "get_top_source_ips c be index es_time_range = [(''top_source_ips'', JList [])]"
    by (simp add: get_top_source_ips_def)
  then show ?thesis by simp
next
  case (Inr d)
  then obtain result where "top_source_ips_try result = Inr d"
    by (cases "search c be index (top_source_ips_query es_time_range)") simp_all
  from top_source_ips_try_shape [OF this] obtain bs entries where
    e: "top_ips_entries bs = Inr entries" and d: "d = [(''top_source_ips'', JList entries)]"
    by blast
  from Inr d have "get_top_source_ips c be index es_time_range =
      [(''top_source_ips'', JList entries)]"
    by (simp add: get_top_source_ips_def)
  with top_ips_entries_excluded [OF e] show ?thesis by blast
qed

text \<open>A bucket without a \<open>country\<close> sub-aggregation gets the country \<open>Unknown\<close>.\<close>

lemma bucket_country_absent:
  "map_of kvs ''country'' = None \<Longrightarrow> bucket_country (JObj kvs) = Inr (JStr ''Unknown'')"
  by (simp add: bucket_country_def)

text \<open>
  C8 (the code at the failing input). The engine reports a country sub-aggregation
  without entries as \<open>buckets: []\<close>. For such a bucket the country lookup raises
  \<^verbatim>\<open>IndexError\<close>, and the fragment is empty: there is no entry with the country
  \<open>Unknown\<close>.
\<close>

theorem empty_country_raises:
  "bucket_country (JObj [(''key'', JStr ''203.0.113.7''), (''doc_count'', JInt 5),
      (''country'', JObj [(''doc_count_error_upper_bound'', JInt 0),
         (''sum_other_doc_count'', JInt 0), (''buckets'', JList [])])]) = Inl IndexError
   \<and> get_top_source_ips (ElasticsearchConnector ''http://es:9200'' None)
     (\<lambda>u q n. Response 200 (Inr (JObj [(''aggregations'', JObj [(''top_source_ips'',
        JObj [(''buckets'', JList
          [JObj [(''key'', JStr ''203.0.113.7''), (''doc_count'', JInt 5),
             (''country'', JObj [(''doc_count_error_upper_bound'', JInt 0),
                (''sum_other_doc_count'', JInt 0), (''buckets'', JList [])])]])])])])))
     ''wazuh-alerts-*'' ''now-24h'' = [(''top_source_ips'', JList [])]"
proof -
  let ?bucket = "JObj [(''key'', JStr ''203.0.113.7''), (''doc_count'', JInt 5),
      (''country'', JObj [(''doc_count_error_upper_bound'', JInt 0),
         (''sum_other_doc_count'', JInt 0), (''buckets'', JList [])])]"
  let ?result = "JObj [(''aggregations'', JObj [(''top_source_ips'',
        JObj [(''buckets'', JList [?bucket])])])]"
  have country: "bucket_country ?bucket = Inl IndexError"
    by (simp add: bucket_country_def)
  have found: "search (ElasticsearchConnector ''http://es:9200'' None)
      (\<lambda>u q n. Response 200 (Inr ?result)) ''wazuh-alerts-*''
      (top_source_ips_query ''now-24h'') = Inr ?result"
    by (simp add: search_def search_events_unfold)
  have buckets: "agg_buckets ?result ''top_source_ips'' = Inr (JList [?bucket])"
    by (simp add: agg_buckets_def)
  have "top_ip_entry ?bucket = Inl IndexError"
    by (simp add: top_ip_entry_def country)
  then have "top_ips_entries [?bucket] = Inl IndexError"
    by simp
  with buckets have "top_source_ips_try ?result = Inl IndexError"
    by (simp add: top_source_ips_try_def)
  with found country show ?thesis
    by (simp add: get_top_source_ips_def)
qed

text \<open>
  C7 (the code at the failing input). Two buckets with addresses that are not excluded,
  the first with a country, the second with a country sub-aggregation without entries:
  neither appears in the fragment.
\<close>

theorem retained_buckets_lost:
  "get_top_source_ips (ElasticsearchConnector ''http://es:9200'' None)
     (\<lambda>u q n. Response 200 (Inr (JObj [(''aggregations'', JObj [(''top_source_ips'',
        JObj [(''buckets'', JList
          [JObj [(''key'', JStr ''198.51.100.4''), (''doc_count'', JInt 9),
             (''country'', JObj [(''buckets'', JList
                [JObj [(''key'', JStr ''Germany''), (''doc_count'', JInt 9)]])])],
           JObj [(''key'', JStr ''203.0.113.7''), (''doc_count'', JInt 5),
             (''country'', JObj [(''buckets'', JList [])])]])])])])))
     ''wazuh-alerts-*'' ''now-24h'' = [(''top_source_ips'', JList [])]"
proof -
  let ?first = "JObj [(''key'', JStr ''198.51.100.4''), (''doc_count'', JInt 9),
             (''country'', JObj [(''buckets'', JList
                [JObj [(''key'', JStr ''Germany''), (''doc_count'', JInt 9)]])])]"
  let ?second = "JObj [(''key'', JStr ''203.0.113.7''), (''doc_count'', JInt 5),
             (''country'', JObj [(''buckets'', JList [])])]"
  let ?result = "JObj [(''aggregations'', JObj [(''top_source_ips'',
        JObj [(''buckets'', JList [?first, ?second])])])]"
  have found: "search (ElasticsearchConnector ''http://es:9200'' None)
      (\<lambda>u q n. Response 200 (Inr ?result)) ''wazuh-alerts-*''
      (top_source_ips_query ''now-24h'') = Inr ?result"
    by (simp add: search_def search_events_unfold)
  have buckets: "agg_buckets ?result ''top_source_ips'' = Inr (JList [?first, ?second])"
    by (simp add: agg_buckets_def)
  have first: "top_ip_entry ?first = Inr (JObj [(''ip'', JStr ''198.51.100.4''),
      (''count'', JInt 9), (''country'', JStr ''Germany'')])"
    by (simp add: top_ip_entry_def bucket_country_def)
  have second: "top_ip_entry ?second = Inl IndexError"
    by (simp add: top_ip_entry_def bucket_country_def)
  have "top_ips_entries [?second] = Inl IndexError"
    by (simp add: second)
  then have "top_ips_entries [?first, ?second] = Inl IndexError"
    by (simp add: first)
  with buckets have "top_source_ips_try ?result = Inl IndexError"
    by (simp add: top_source_ips_try_def)
  with found show ?thesis
    by (simp add: get_top_source_ips_def)
qed

section \<open>Properties of the statistics call\<close>

subsection \<open>The shape of each fragment\<close>

lemma alerts_per_hour_shape:
  "\<exists>xs. get_alerts_per_hour c be index r iv = [(''alerts_per_hour'', JList xs)]"
proof (cases "and_then (search c be index (alerts_per_hour_query r iv)) alerts_per_hour_try")
  case (Inl e)
  then show ?thesis by (simp add: get_alerts_per_hour_def)
next
  case (Inr d)
  then obtain result where t: "alerts_per_hour_try result = Inr d"
    by (cases "search c be index (alerts_per_hour_query r iv)") simp_all
  then obtain buckets where b: "agg_buckets result ''alerts_per_hour'' = Inr buckets"
    by (cases "agg_buckets result ''alerts_per_hour''") (simp_all add: alerts_per_hour_try_def)
  with t obtain bs where bs: "py_iter buckets = Inr bs"
    by (cases "py_iter buckets") (simp_all add: alerts_per_hour_try_def)
  with t b obtain xs where "map_exn alerts_per_hour_entry bs = Inr xs"
    by (cases "map_exn alerts_per_hour_entry bs") (simp_all add: alerts_per_hour_try_def)
  with t b bs have "d = [(''alerts_per_hour'', JList xs)]"
    by (auto simp: alerts_per_hour_try_def)
  with Inr show ?thesis by (simp add: get_alerts_per_hour_def)
qed

lemma top_rules_shape:
  "\<exists>xs. get_top_rules c be index r = [(''top_rules'', JList xs)]"
proof (cases "and_then (search c be index (top_rules_query r)) top_rules_try")
  case (Inl e)
  then show ?thesis by (simp add: get_top_rules_def)
next
  case (Inr d)
  then obtain result where t: "top_rules_try result = Inr d"
    by (cases "search c be index (top_rules_query r)") simp_all
  then obtain buckets where b: "agg_buckets result ''top_rules'' = Inr buckets"
    by (cases "agg_buckets result ''top_rules''") (simp_all add: top_rules_try_def)
  with t obtain bs where bs: "py_iter buckets = Inr bs"
    by (cases "py_iter buckets") (simp_all add: top_rules_try_def)
  with t b obtain xs where "map_exn top_rules_entry bs = Inr xs"
    by (cases "map_exn top_rules_entry bs") (simp_all add: top_rules_try_def)
  with t b bs have "d = [(''top_rules'', JList xs)]"
    by (auto simp: top_rules_try_def)
  with Inr show ?thesis by (simp add: get_top_rules_def)
qed

lemma top_agents_shape:
  "\<exists>xs. get_top_agents c be index = [(''top_agents'', JList xs)]"
proof (cases "and_then (search c be index top_agents_query) top_agents_try")
  case (Inl e)
  then show ?thesis by (simp add: get_top_agents_def)
next
  case (Inr d)
  then obtain result where t: "top_agents_try result = Inr d"
    by (cases "search c be index top_agents_query") simp_all
  then obtain buckets where b: "agg_buckets result ''top_agents'' = Inr buckets"
    by (cases "agg_buckets result ''top_agents''") (simp_all add: top_agents_try_def)
  with t obtain bs where bs: "py_iter buckets = Inr bs"
    by (cases "py_iter buckets") (simp_all add: top_agents_try_def)
  with t b obtain xs where "map_exn top_agents_entry bs = Inr xs"
    by (cases "map_exn top_agents_entry bs") (simp_all add: top_agents_try_def)
  with t b bs have "d = [(''top_agents'', JList xs)]"
    by (auto simp: top_agents_try_def)
  with Inr show ?thesis by (simp add: get_top_agents_def)
qed

lemma top_source_ips_shape:
  "\<exists>xs. get_top_source_ips c be index r = [(''top_source_ips'', JList xs)]"
  using top_source_ips_excluded [of c be index r] by blast

lemma alert_trends_shape:
  "\<exists>xs. get_alert_trends c be index r = [(''alert_trends'', JList xs)]"
proof (cases "and_then (search c be index (alert_trends_query r)) alert_trends_try")
  case (Inl e)
  then show ?thesis by (simp add: get_alert_trends_def)
next
  case (Inr d)
  then obtain result where t: "alert_trends_try result = Inr d"
    by (cases "search c be index (alert_trends_query r)") simp_all
  then obtain buckets where b: "agg_buckets result ''daily_trends'' = Inr buckets"
    by (cases "agg_buckets result ''daily_trends''") (simp_all add: alert_trends_try_def)
  with t obtain bs where bs: "py_iter buckets = Inr bs"
    by (cases "py_iter buckets") (simp_all add: alert_trends_try_def)
  with t b obtain xs where "map_exn alert_trends_entry bs = Inr xs"
    by (cases "map_exn alert_trends_entry bs") (simp_all add: alert_trends_try_def)
  with t b bs have "d = [(''alert_trends'', JList xs)]"
    by (auto simp: alert_trends_try_def)
  with Inr show ?thesis by (simp add: get_alert_trends_def)
qed

lemma agent_status_shape:
  "\<exists>online offline. get_agent_status c be index =
      [(''agent_health'', JObj [(''total'', JInt (online + offline)),
          (''online'', JInt online), (''offline'', JInt offline)])]"
proof (cases "and_then (search c be index agent_status_query) agent_status_try")
  case (Inl e)
  then have "get_agent_status c be index =
      [(''agent_health'', JObj [(''total'', JInt (0 + 0)),
          (''online'', JInt 0), (''offline'', JInt 0)])]"
    by (simp add: get_agent_status_def agent_health_json_def)
  then show ?thesis by blast
next
  case (Inr d)
  then obtain result where t: "agent_status_try result = Inr d"
    by (cases "search c be index agent_status_query") simp_all
  then obtain buckets where b: "agg_buckets result ''agents'' = Inr buckets"
    by (cases "agg_buckets result ''agents''") (simp_all add: agent_status_try_def)
  with t obtain bs where bs: "py_iter buckets = Inr bs"
    by (cases "py_iter buckets") (simp_all add: agent_status_try_def)
  with t b obtain counters where "agent_status_loop (0, 0) bs = Inr counters"
    by (cases "agent_status_loop (0, 0) bs") (simp_all add: agent_status_try_def)
  with t b bs have "d = [(''agent_health'', agent_health_json counters)]"
    by (auto simp: agent_status_try_def)
  with Inr have "get_agent_status c be index =
      [(''agent_health'', JObj [(''total'', JInt (fst counters + snd counters)),
          (''online'', JInt (fst counters)), (''offline'', JInt (snd counters))])]"
    by (simp add: get_agent_status_def agent_health_json_def)
  then show ?thesis by blast
qed

lemma severity_breakdown_shape:
  "\<exists>xs ss. get_severity_breakdown py c be index r =
       [(''severity_breakdown'', JList xs), (''severity_summary'', ss)]
     \<and> ((\<exists>s. ss = bands_json s) \<or> (ss = JObj [] \<and> xs = []))"
proof (cases "and_then (search c be index (severity_breakdown_query r))
    (severity_breakdown_try py)")
  case (Inl e)
  then show ?thesis by (simp add: get_severity_breakdown_def)
next
  case (Inr d)
  then obtain result where t: "severity_breakdown_try py result = Inr d"
    by (cases "search c be index (severity_breakdown_query r)") simp_all
  then obtain buckets where b: "agg_buckets result ''severity_breakdown'' = Inr buckets"
    by (cases "agg_buckets result ''severity_breakdown''")
      (simp_all add: severity_breakdown_try_def)
  with t obtain bs where bs: "py_iter buckets = Inr bs"
    by (cases "py_iter buckets") (simp_all add: severity_breakdown_try_def)
  with t b obtain severity_data where sd: "map_exn (severity_entry py) bs = Inr severity_data"
    by (cases "map_exn (severity_entry py) bs") (simp_all add: severity_breakdown_try_def)
  with t b bs obtain s where
    "severity_loop \<lparr>critical = 0, high = 0, medium = 0, low = 0\<rparr> severity_data = Inr s"
    by (cases "severity_loop \<lparr>critical = 0, high = 0, medium = 0, low = 0\<rparr> severity_data")
      (simp_all add: severity_breakdown_try_def)
  with t b bs sd have "d = [(''severity_breakdown'', severity_data_json severity_data),
      (''severity_summary'', bands_json s)]"
    by (auto simp: severity_breakdown_try_def)
  with Inr show ?thesis
    by (auto simp: get_severity_breakdown_def severity_data_json_def)
qed

subsection \<open>The merged result\<close>

lemma bands_sum:
  "and_then (py_values (bands_json s)) (py_sum 0) = Inr (critical s + high s + medium s + low s)"
  by (simp add: bands_json_def)

lemma collect_stats_assemble:
  assumes "get_alerts_per_hour c be ai r iv = [(''alerts_per_hour'', a)]"
    and "get_severity_breakdown py c be ai r =
          [(''severity_breakdown'', sb), (''severity_summary'', ss)]"
    and "get_top_rules c be ai r = [(''top_rules'', rules)]"
    and "get_top_agents c be ai = [(''top_agents'', agents)]"
    and "get_top_source_ips c be ai r = [(''top_source_ips'', ips)]"
    and "get_alert_trends c be ai r = [(''alert_trends'', trends)]"
    and "get_agent_status c be mi = [(''agent_health'', health)]"
    and "ss = bands_json s \<or> ss = JObj []"
  shows "collect_stats py c be ai mi r iv =
      Inr [(''alerts_per_hour'', a), (''severity_breakdown'', sb), (''severity_summary'', ss),
           (''top_rules'', rules), (''top_agents'', agents), (''top_source_ips'', ips),
           (''alert_trends'', trends), (''agent_health'', health),
           (''critical_alerts'', JInt (if ss = JObj [] then 0 else critical s)),
           (''total_alerts'',
              JInt (if ss = JObj [] then 0 else critical s + high s + medium s + low s))]"
proof -
  have stats: "dict_update (dict_update (dict_update (dict_update (dict_update (dict_update
      (dict_update (dict_update [] [(''alerts_per_hour'', a)])
        [(''severity_breakdown'', sb)]) [(''severity_summary'', ss)])
        [(''top_rules'', rules)]) [(''top_agents'', agents)]) [(''top_source_ips'', ips)])
        [(''alert_trends'', trends)]) [(''agent_health'', health)] =
      [(''alerts_per_hour'', a), (''severity_breakdown'', sb), (''severity_summary'', ss),
       (''top_rules'', rules), (''top_agents'', agents), (''top_source_ips'', ips),
       (''alert_trends'', trends), (''agent_health'', health)]"
    by (simp add: dict_update_def)
  have sev: "dict_get [(''severity_breakdown'', sb), (''severity_summary'', ss)]
        ''severity_breakdown'' (JList []) = sb"
    "dict_get [(''severity_breakdown'', sb), (''severity_summary'', ss)]
        ''severity_summary'' (JObj []) = ss"
    by (simp_all add: dict_get_def)
  have summary: "dict_get [(''alerts_per_hour'', a), (''severity_breakdown'', sb),
       (''severity_summary'', ss), (''top_rules'', rules), (''top_agents'', agents),
       (''top_source_ips'', ips), (''alert_trends'', trends), (''agent_health'', health)]
       ''severity_summary'' (JObj []) = ss"
    by (simp add: dict_get_def)
  have totals: "dict_set (dict_set [(''alerts_per_hour'', a), (''severity_breakdown'', sb),
       (''severity_summary'', ss), (''top_rules'', rules), (''top_agents'', agents),
       (''top_source_ips'', ips), (''alert_trends'', trends), (''agent_health'', health)]
       ''critical_alerts'' x) ''total_alerts'' y =
      [(''alerts_per_hour'', a), (''severity_breakdown'', sb), (''severity_summary'', ss),
       (''top_rules'', rules), (''top_agents'', agents), (''top_source_ips'', ips),
       (''alert_trends'', trends), (''agent_health'', health),
       (''critical_alerts'', x), (''total_alerts'', y)]" for x y
    by simp
  have unfolded: "collect_stats py c be ai mi r iv =
      and_then (py_get ss ''critical'' (JInt 0)) (\<lambda>critical_alerts.
         and_then (if py_truthy ss then and_then (py_values ss) (py_sum 0) else Inr 0)
           (\<lambda>total_alerts.
         Inr [(''alerts_per_hour'', a), (''severity_breakdown'', sb), (''severity_summary'', ss),
              (''top_rules'', rules), (''top_agents'', agents), (''top_source_ips'', ips),
              (''alert_trends'', trends), (''agent_health'', health),
              (''critical_alerts'', critical_alerts), (''total_alerts'', JInt total_alerts)]))"
    unfolding collect_stats_def Let_def assms(1-7) sev stats summary totals ..
  from assms(8) show ?thesis
  proof
    assume ss: "ss = bands_json s"
    have "py_get (bands_json s) ''critical'' (JInt 0) = Inr (JInt (critical s))"
      and "py_truthy (bands_json s)" and "bands_json s \<noteq> JObj []"
      by (simp_all add: bands_json_def)
    then show ?thesis unfolding unfolded ss by (simp add: bands_sum)
  next
    assume "ss = JObj []"
    then show ?thesis unfolding unfolded by simp
  qed
qed

lemma dashboard_try_unfold:
  assumes "table_get time_map time_range ''now-24h'' = Inr r"
    and "table_get interval_map time_range ''1h'' = Inr iv"
  shows "dashboard_try py url be name time_range =
      collect_stats py (ElasticsearchConnector url name) be (alert_index_of name)
        (monitoring_index_of name) r iv"
  by (simp add: dashboard_try_def assms)

lemma table_get_same_key:
  "table_get table time_range dflt = Inr r \<Longrightarrow> \<exists>iv. table_get table' time_range dflt' = Inr iv"
  by (cases time_range) simp_all

lemma table_get_raises:
  "table_get table time_range dflt = Inl e \<Longrightarrow> table_get table' time_range dflt' = Inl e"
  by (cases time_range) simp_all

lemma dashboard_failure:
  assumes "table_get time_map time_range ''now-24h'' = Inl e"
  shows "get_dashboard_statistics py url be name time_range = failure_stats py e"
  by (simp add: get_dashboard_statistics_def dashboard_try_def assms)

text \<open>
  When the time range is hashable the call returns the ten fields, in this order, each
  fragment field holding what its own fragment function returned.
\<close>

lemma dashboard_complete:
  assumes "table_get time_map time_range ''now-24h'' = Inr r"
    and "table_get interval_map time_range ''1h'' = Inr iv"
    and "c = ElasticsearchConnector url name"
    and "ai = alert_index_of name"
    and "mi = monitoring_index_of name"
  shows "\<exists>a sb ss rules agents ips trends online offline s.
      get_alerts_per_hour c be ai r iv = [(''alerts_per_hour'', JList a)]
      \<and> get_severity_breakdown py c be ai r =
          [(''severity_breakdown'', JList sb), (''severity_summary'', ss)]
      \<and> (ss = bands_json s \<or> ss = JObj [] \<and> sb = [])
      \<and> get_top_rules c be ai r = [(''top_rules'', JList rules)]
      \<and> get_top_agents c be ai = [(''top_agents'', JList agents)]
      \<and> get_top_source_ips c be ai r = [(''top_source_ips'', JList ips)]
      \<and> get_alert_trends c be ai r = [(''alert_trends'', JList trends)]
      \<and> get_agent_status c be mi =
          [(''agent_health'', JObj [(''total'', JInt (online + offline)),
              (''online'', JInt online), (''offline'', JInt offline)])]
      \<and> get_dashboard_statistics py url be name time_range =
          [(''alerts_per_hour'', JList a), (''severity_breakdown'', JList sb),
           (''severity_summary'', ss), (''top_rules'', JList rules),
           (''top_agents'', JList agents), (''top_source_ips'', JList ips),
           (''alert_trends'', JList trends),
           (''agent_health'', JObj [(''total'', JInt (online + offline)),
              (''online'', JInt online), (''offline'', JInt offline)]),
           (''critical_alerts'', JInt (if ss = JObj [] then 0 else critical s)),
           (''total_alerts'',
              JInt (if ss = JObj [] then 0 else critical s + high s + medium s + low s))]"
proof -
  obtain a where a: "get_alerts_per_hour c be ai r iv = [(''alerts_per_hour'', JList a)]"
    using alerts_per_hour_shape by blast
  obtain sb ss where sev: "get_severity_breakdown py c be ai r =
          [(''severity_breakdown'', JList sb), (''severity_summary'', ss)]"
    and ss: "(\<exists>s. ss = bands_json s) \<or> (ss = JObj [] \<and> sb = [])"
    using severity_breakdown_shape by blast
  from ss obtain s where s: "ss = bands_json s \<or> ss = JObj [] \<and> sb = []" by blast
  then have s': "ss = bands_json s \<or> ss = JObj []" by blast
  obtain rules where rules: "get_top_rules c be ai r = [(''top_rules'', JList rules)]"
    using top_rules_shape by blast
  obtain agents where agents: "get_top_agents c be ai = [(''top_agents'', JList agents)]"
    using top_agents_shape by blast
  obtain ips where ips: "get_top_source_ips c be ai r = [(''top_source_ips'', JList ips)]"
    using top_source_ips_shape by blast
  obtain trends where trends: "get_alert_trends c be ai r = [(''alert_trends'', JList trends)]"
    using alert_trends_shape by blast
  obtain online offline where health: "get_agent_status c be mi =
          [(''agent_health'', JObj [(''total'', JInt (online + offline)),
              (''online'', JInt online), (''offline'', JInt offline)])]"
    using agent_status_shape by blast
  have "get_dashboard_statistics py url be name time_range =
      (case collect_stats py c be ai mi r iv of Inr stats \<Rightarrow> stats
       | Inl e \<Rightarrow> failure_stats py e)"
    unfolding get_dashboard_statistics_def dashboard_try_unfold [OF assms(1,2)] assms(3-5) ..
  also have "\<dots> = [(''alerts_per_hour'', JList a), (''severity_breakdown'', JList sb),
           (''severity_summary'', ss), (''top_rules'', JList rules),
           (''top_agents'', JList agents), (''top_source_ips'', JList ips),
           (''alert_trends'', JList trends),
           (''agent_health'', JObj [(''total'', JInt (online + offline)),
              (''online'', JInt online), (''offline'', JInt offline)]),
           (''critical_alerts'', JInt (if ss = JObj [] then 0 else critical s)),
           (''total_alerts'',
              JInt (if ss = JObj [] then 0 else critical s + high s + medium s + low s))]"
    unfolding collect_stats_assemble [OF a sev rules agents ips trends health s'] by simp
  finally show ?thesis using a sev s rules agents ips trends health by blast
qed

subsection \<open>The fixed shape of the result\<close>




subsection \<open>The derived totals\<close>

text \<open>
  In the result of a completed call \<open>critical_alerts\<close> is the critical band and
  \<open>total_alerts\<close> the sum of the four bands; both are 0 when the summary is empty.
\<close>

lemma totals_of_completed_call:
  assumes "table_get time_map time_range ''now-24h'' = Inr r"
  shows "(\<exists>cr hi me lo.
        map_of (get_dashboard_statistics py url be name time_range) ''severity_summary''
          = Some (JObj [(''critical'', JInt cr), (''high'', JInt hi), (''medium'', JInt me),
                        (''low'', JInt lo)])
        \<and> map_of (get_dashboard_statistics py url be name time_range) ''critical_alerts''
          = Some (JInt cr)
        \<and> map_of (get_dashboard_statistics py url be name time_range) ''total_alerts''
          = Some (JInt (cr + hi + me + lo)))
    \<or> (map_of (get_dashboard_statistics py url be name time_range) ''severity_summary''
          = Some (JObj [])
        \<and> map_of (get_dashboard_statistics py url be name time_range) ''critical_alerts''
          = Some (JInt 0)
        \<and> map_of (get_dashboard_statistics py url be name time_range) ''total_alerts''
          = Some (JInt 0))"
proof -
  from table_get_same_key [OF assms] obtain iv where
    iv: "table_get interval_map time_range ''1h'' = Inr iv" by blast
  from dashboard_complete [OF assms iv refl refl refl, where py = py and url = url
      and name = name and be = be]
  obtain a sb ss rules agents ips trends online offline s where
    ss: "ss = bands_json s \<or> ss = JObj [] \<and> sb = []"
    and S: "get_dashboard_statistics py url be name time_range =
          [(''alerts_per_hour'', JList a), (''severity_breakdown'', JList sb),
           (''severity_summary'', ss), (''top_rules'', JList rules),
           (''top_agents'', JList agents), (''top_source_ips'', JList ips),
           (''alert_trends'', JList trends),
           (''agent_health'', JObj [(''total'', JInt (online + offline)),
              (''online'', JInt online), (''offline'', JInt offline)]),
           (''critical_alerts'', JInt (if ss = JObj [] then 0 else critical s)),
           (''total_alerts'',
              JInt (if ss = JObj [] then 0 else critical s + high s + medium s + low s))]"
    by blast
  from ss show ?thesis
  proof
    assume "ss = bands_json s"
    then show ?thesis unfolding S by (simp add: bands_json_def)
  next
    assume "ss = JObj [] \<and> sb = []"
    then show ?thesis unfolding S by simp
  qed
qed

text \<open>
  C6 (the code at the failing input). A request body with \<open>"time_range": []\<close> makes
  the lookup in \<open>time_map\<close> raise; the handler of the statistics call returns its
  failure object, which has neither \<open>total_alerts\<close> nor \<open>critical_alerts\<close>.
\<close>

theorem totals_missing_on_failure:
  "get_dashboard_statistics py url be name (JList []) = failure_stats py TypeError
   \<and> map_of (get_dashboard_statistics py url be name (JList [])) ''total_alerts'' = None
   \<and> map_of (get_dashboard_statistics py url be name (JList [])) ''critical_alerts'' = None"
  by (simp add: dashboard_failure failure_stats_def)

subsection \<open>Isolation of the fragments\<close>

lemma search_cong:
  "be' (search_url c index) q = be (search_url c index) q \<Longrightarrow>
     search c be' index q = search c be index q"
  by (simp add: search_def search_events_def)

lemma search_non_200:
  assumes "be (search_url (ElasticsearchConnector url name) index) q 0 = Response status b"
    and "status \<noteq> 200"
  shows "search (ElasticsearchConnector url name) be index q = Inr (JObj [])"
  using assms by (simp add: search_def search_events_unfold)

lemma try_of_empty_response:
  "alerts_per_hour_try (JObj []) = Inr [(''alerts_per_hour'', JList [])]"
  "severity_breakdown_try py (JObj []) =
     Inr [(''severity_breakdown'', JList []), (''severity_summary'', bands_json \<lparr>critical = 0, high = 0, medium = 0, low = 0\<rparr>)]"
  "top_rules_try (JObj []) = Inr [(''top_rules'', JList [])]"
  "top_agents_try (JObj []) = Inr [(''top_agents'', JList [])]"
  "top_source_ips_try (JObj []) = Inr [(''top_source_ips'', JList [])]"
  "alert_trends_try (JObj []) = Inr [(''alert_trends'', JList [])]"
  "agent_status_try (JObj []) = Inr [(''agent_health'', agent_health_json (0, 0))]"
  by (simp_all add: alerts_per_hour_try_def severity_breakdown_try_def top_rules_try_def
      top_agents_try_def top_source_ips_try_def alert_trends_try_def agent_status_try_def
      agg_buckets_def severity_data_json_def)

text \<open>The fields of a completed call, read from what the fragment functions returned.\<close>

lemma dashboard_fields:
  assumes r: "table_get time_map time_range ''now-24h'' = Inr r"
    and iv: "table_get interval_map time_range ''1h'' = Inr iv"
  shows "map_of (get_dashboard_statistics py url be name time_range) ''alerts_per_hour'' =
           map_of (get_alerts_per_hour (ElasticsearchConnector url name) be (alert_index_of name) r iv) ''alerts_per_hour''"
    and "map_of (get_dashboard_statistics py url be name time_range) ''severity_breakdown'' =
           map_of (get_severity_breakdown py (ElasticsearchConnector url name) be (alert_index_of name) r) ''severity_breakdown''"
    and "map_of (get_dashboard_statistics py url be name time_range) ''severity_summary'' =
           map_of (get_severity_breakdown py (ElasticsearchConnector url name) be (alert_index_of name) r) ''severity_summary''"
    and "map_of (get_dashboard_statistics py url be name time_range) ''top_rules'' = map_of (get_top_rules (ElasticsearchConnector url name) be (alert_index_of name) r) ''top_rules''"
    and "map_of (get_dashboard_statistics py url be name time_range) ''top_agents'' = map_of (get_top_agents (ElasticsearchConnector url name) be (alert_index_of name)) ''top_agents''"
    and "map_of (get_dashboard_statistics py url be name time_range) ''top_source_ips'' =
           map_of (get_top_source_ips (ElasticsearchConnector url name) be (alert_index_of name) r) ''top_source_ips''"
    and "map_of (get_dashboard_statistics py url be name time_range) ''alert_trends'' = map_of (get_alert_trends (ElasticsearchConnector url name) be (alert_index_of name) r) ''alert_trends''"
    and "map_of (get_dashboard_statistics py url be name time_range) ''agent_health'' = map_of (get_agent_status (ElasticsearchConnector url name) be (monitoring_index_of name)) ''agent_health''"
proof -
  from dashboard_complete [OF r iv refl refl refl, where py = py and url = url
      and name = name and be = be]
  obtain a sb ss rules agents ips trends online offline s where all:
    "get_alerts_per_hour (ElasticsearchConnector url name) be (alert_index_of name) r iv = [(''alerts_per_hour'', JList a)]
    \<and> get_severity_breakdown py (ElasticsearchConnector url name) be (alert_index_of name) r =
          [(''severity_breakdown'', JList sb), (''severity_summary'', ss)]
    \<and> (ss = bands_json s \<or> ss = JObj [] \<and> sb = [])
    \<and> get_top_rules (ElasticsearchConnector url name) be (alert_index_of name) r = [(''top_rules'', JList rules)]
    \<and> get_top_agents (ElasticsearchConnector url name) be (alert_index_of name) = [(''top_agents'', JList agents)]
    \<and> get_top_source_ips (ElasticsearchConnector url name) be (alert_index_of name) r = [(''top_source_ips'', JList ips)]
    \<and> get_alert_trends (ElasticsearchConnector url name) be (alert_index_of name) r = [(''alert_trends'', JList trends)]
    \<and> get_agent_status (ElasticsearchConnector url name) be (monitoring_index_of name) =
          [(''agent_health'', JObj [(''total'', JInt (online + offline)),
              (''online'', JInt online), (''offline'', JInt offline)])]
    \<and> get_dashboard_statistics py url be name time_range =
          [(''alerts_per_hour'', JList a), (''severity_breakdown'', JList sb),
           (''severity_summary'', ss), (''top_rules'', JList rules),
           (''top_agents'', JList agents), (''top_source_ips'', JList ips),
           (''alert_trends'', JList trends),
           (''agent_health'', JObj [(''total'', JInt (online + offline)),
              (''online'', JInt online), (''offline'', JInt offline)]),
           (''critical_alerts'', JInt (if ss = JObj [] then 0 else critical s)),
           (''total_alerts'',
              JInt (if ss = JObj [] then 0 else critical s + high s + medium s + low s))]"
    by (elim exE) (erule that)
  from all have facts:
    "get_alerts_per_hour (ElasticsearchConnector url name) be (alert_index_of name) r iv = [(''alerts_per_hour'', JList a)]"
    "get_severity_breakdown py (ElasticsearchConnector url name) be (alert_index_of name) r =
          [(''severity_breakdown'', JList sb), (''severity_summary'', ss)]"
    "get_top_rules (ElasticsearchConnector url name) be (alert_index_of name) r = [(''top_rules'', JList rules)]"
    "get_top_agents (ElasticsearchConnector url name) be (alert_index_of name) = [(''top_agents'', JList agents)]"
    "get_top_source_ips (ElasticsearchConnector url name) be (alert_index_of name) r = [(''top_source_ips'', JList ips)]"
    "get_alert_trends (ElasticsearchConnector url name) be (alert_index_of name) r = [(''alert_trends'', JList trends)]"
    "get_agent_status (ElasticsearchConnector url name) be (monitoring_index_of name) =
          [(''agent_health'', JObj [(''total'', JInt (online + offline)),
              (''online'', JInt online), (''offline'', JInt offline)])]"
    by simp_all
  from all have S: "get_dashboard_statistics py url be name time_range =
          [(''alerts_per_hour'', JList a), (''severity_breakdown'', JList sb),
           (''severity_summary'', ss), (''top_rules'', JList rules),
           (''top_agents'', JList agents), (''top_source_ips'', JList ips),
           (''alert_trends'', JList trends),
           (''agent_health'', JObj [(''total'', JInt (online + offline)),
              (''online'', JInt online), (''offline'', JInt offline)]),
           (''critical_alerts'', JInt (if ss = JObj [] then 0 else critical s)),
           (''total_alerts'',
              JInt (if ss = JObj [] then 0 else critical s + high s + medium s + low s))]"
    by blast
  show "map_of (get_dashboard_statistics py url be name time_range) ''alerts_per_hour'' =
           map_of (get_alerts_per_hour (ElasticsearchConnector url name) be (alert_index_of name) r iv) ''alerts_per_hour''"
    and "map_of (get_dashboard_statistics py url be name time_range) ''severity_breakdown'' =
           map_of (get_severity_breakdown py (ElasticsearchConnector url name) be (alert_index_of name) r) ''severity_breakdown''"
    and "map_of (get_dashboard_statistics py url be name time_range) ''severity_summary'' =
           map_of (get_severity_breakdown py (ElasticsearchConnector url name) be (alert_index_of name) r) ''severity_summary''"
    and "map_of (get_dashboard_statistics py url be name time_range) ''top_rules'' = map_of (get_top_rules (ElasticsearchConnector url name) be (alert_index_of name) r) ''top_rules''"
    and "map_of (get_dashboard_statistics py url be name time_range) ''top_agents'' = map_of (get_top_agents (ElasticsearchConnector url name) be (alert_index_of name)) ''top_agents''"
    and "map_of (get_dashboard_statistics py url be name time_range) ''top_source_ips'' =
           map_of (get_top_source_ips (ElasticsearchConnector url name) be (alert_index_of name) r) ''top_source_ips''"
    and "map_of (get_dashboard_statistics py url be name time_range) ''alert_trends'' = map_of (get_alert_trends (ElasticsearchConnector url name) be (alert_index_of name) r) ''alert_trends''"
    and "map_of (get_dashboard_statistics py url be name time_range) ''agent_health'' = map_of (get_agent_status (ElasticsearchConnector url name) be (monitoring_index_of name)) ''agent_health''"
    unfolding facts S by simp_all
qed

text \<open>The two totals of a completed call, read from the summary of the severity fragment.\<close>

lemma dashboard_totals:
  assumes r: "table_get time_map time_range ''now-24h'' = Inr r"
    and iv: "table_get interval_map time_range ''1h'' = Inr iv"
    and sev: "get_severity_breakdown py (ElasticsearchConnector url name) be (alert_index_of name) r =
        [(''severity_breakdown'', sb), (''severity_summary'', ss)]"
  shows "(ss = JObj [] \<longrightarrow> map_of (get_dashboard_statistics py url be name time_range) ''critical_alerts'' = Some (JInt 0)
            \<and> map_of (get_dashboard_statistics py url be name time_range) ''total_alerts'' = Some (JInt 0))
    \<and> (\<forall>s. ss = bands_json s \<longrightarrow>
            map_of (get_dashboard_statistics py url be name time_range) ''critical_alerts'' = Some (JInt (critical s))
            \<and> map_of (get_dashboard_statistics py url be name time_range) ''total_alerts''
                = Some (JInt (critical s + high s + medium s + low s)))"
proof -
  from dashboard_complete [OF r iv refl refl refl, where py = py and url = url
      and name = name and be = be]
  obtain a sb' ss' rules agents ips trends online offline s' where all:
    "get_alerts_per_hour (ElasticsearchConnector url name) be (alert_index_of name) r iv = [(''alerts_per_hour'', JList a)]
    \<and> get_severity_breakdown py (ElasticsearchConnector url name) be (alert_index_of name) r =
          [(''severity_breakdown'', JList sb'), (''severity_summary'', ss')]
    \<and> (ss' = bands_json s' \<or> ss' = JObj [] \<and> sb' = [])
    \<and> get_top_rules (ElasticsearchConnector url name) be (alert_index_of name) r = [(''top_rules'', JList rules)]
    \<and> get_top_agents (ElasticsearchConnector url name) be (alert_index_of name) = [(''top_agents'', JList agents)]
    \<and> get_top_source_ips (ElasticsearchConnector url name) be (alert_index_of name) r = [(''top_source_ips'', JList ips)]
    \<and> get_alert_trends (ElasticsearchConnector url name) be (alert_index_of name) r = [(''alert_trends'', JList trends)]
    \<and> get_agent_status (ElasticsearchConnector url name) be (monitoring_index_of name) =
          [(''agent_health'', JObj [(''total'', JInt (online + offline)),
              (''online'', JInt online), (''offline'', JInt offline)])]
    \<and> get_dashboard_statistics py url be name time_range =
          [(''alerts_per_hour'', JList a), (''severity_breakdown'', JList sb'),
           (''severity_summary'', ss'), (''top_rules'', JList rules),
           (''top_agents'', JList agents), (''top_source_ips'', JList ips),
           (''alert_trends'', JList trends),
           (''agent_health'', JObj [(''total'', JInt (online + offline)),
              (''online'', JInt online), (''offline'', JInt offline)]),
           (''critical_alerts'', JInt (if ss' = JObj [] then 0 else critical s')),
           (''total_alerts'',
              JInt (if ss' = JObj [] then 0 else critical s' + high s' + medium s' + low s'))]"
    by (elim exE) (erule that)
  from all have sev': "get_severity_breakdown py (ElasticsearchConnector url name) be (alert_index_of name) r =
          [(''severity_breakdown'', JList sb'), (''severity_summary'', ss')]"
    and ss': "ss' = bands_json s' \<or> ss' = JObj [] \<and> sb' = []"
    by simp_all
  from all have S: "get_dashboard_statistics py url be name time_range =
          [(''alerts_per_hour'', JList a), (''severity_breakdown'', JList sb'),
           (''severity_summary'', ss'), (''top_rules'', JList rules),
           (''top_agents'', JList agents), (''top_source_ips'', JList ips),
           (''alert_trends'', JList trends),
           (''agent_health'', JObj [(''total'', JInt (online + offline)),
              (''online'', JInt online), (''offline'', JInt offline)]),
           (''critical_alerts'', JInt (if ss' = JObj [] then 0 else critical s')),
           (''total_alerts'',
              JInt (if ss' = JObj [] then 0 else critical s' + high s' + medium s' + low s'))]"
    by blast
  from sev sev' have same: "ss' = ss" by simp
  show ?thesis
  proof (intro conjI allI impI)
    assume "ss = JObj []"
    with same show "map_of (get_dashboard_statistics py url be name time_range) ''critical_alerts'' = Some (JInt 0)"
      and "map_of (get_dashboard_statistics py url be name time_range) ''total_alerts'' = Some (JInt 0)"
      unfolding S by simp_all
  next
    fix s
    assume s: "ss = bands_json s"
    then have nonempty: "ss' \<noteq> JObj []" using same by (simp add: bands_json_def)
    with ss' same s have "bands_json s' = bands_json s" by simp
    then have eq: "critical s' = critical s" "high s' = high s" "medium s' = medium s"
      "low s' = low s"
      by (simp_all add: bands_json_def)
    from nonempty eq show "map_of (get_dashboard_statistics py url be name time_range) ''critical_alerts'' = Some (JInt (critical s))"
      and "map_of (get_dashboard_statistics py url be name time_range) ''total_alerts'' = Some (JInt (critical s + high s + medium s + low s))"
      unfolding S by simp_all
  qed
qed

lemma alerts_per_hour_non_200:
  assumes r: "table_get time_map time_range ''now-24h'' = Inr r"
    and iv: "table_get interval_map time_range ''1h'' = Inr iv"
  shows "(\<forall>status b. be (search_url (ElasticsearchConnector url name) (alert_index_of name)) (alerts_per_hour_query r iv) 0 = Response status b \<and> status \<noteq> 200 \<longrightarrow>
        map_of (get_dashboard_statistics py url be name time_range) ''alerts_per_hour'' = Some (JList []))"
proof (intro allI impI)
  fix status b
  assume h: "be (search_url (ElasticsearchConnector url name) (alert_index_of name)) (alerts_per_hour_query r iv) 0 = Response status b \<and> status \<noteq> 200"
  then have "search (ElasticsearchConnector url name) be (alert_index_of name) (alerts_per_hour_query r iv) = Inr (JObj [])"
    using search_non_200 by blast
  then have g: "get_alerts_per_hour (ElasticsearchConnector url name) be (alert_index_of name) r iv = [(''alerts_per_hour'', JList [])]"
    by (simp add: get_alerts_per_hour_def try_of_empty_response)
    from dashboard_fields(1) [OF r iv, where be = be and py = py and url = url
        and name = name] g
    show "map_of (get_dashboard_statistics py url be name time_range) ''alerts_per_hour'' = Some (JList [])"
      by (simp add: agent_health_json_def)
qed

lemma alerts_per_hour_raises:
  assumes r: "table_get time_map time_range ''now-24h'' = Inr r"
    and iv: "table_get interval_map time_range ''1h'' = Inr iv"
  shows "(\<forall>result e. search (ElasticsearchConnector url name) be (alert_index_of name) (alerts_per_hour_query r iv) = Inr result \<and> alerts_per_hour_try result = Inl e \<longrightarrow>
        map_of (get_dashboard_statistics py url be name time_range) ''alerts_per_hour'' = Some (JList []))"
proof (intro allI impI)
  fix result e
  assume h: "search (ElasticsearchConnector url name) be (alert_index_of name) (alerts_per_hour_query r iv) = Inr result \<and> alerts_per_hour_try result = Inl e"
  then have g: "get_alerts_per_hour (ElasticsearchConnector url name) be (alert_index_of name) r iv = [(''alerts_per_hour'', JList [])]"
    by (simp add: get_alerts_per_hour_def agent_health_json_def)
    from dashboard_fields(1) [OF r iv, where be = be and py = py and url = url
        and name = name] g
    show "map_of (get_dashboard_statistics py url be name time_range) ''alerts_per_hour'' = Some (JList [])"
      by (simp add: agent_health_json_def)
qed

lemma alerts_per_hour_own_answers:
  assumes r: "table_get time_map time_range ''now-24h'' = Inr r"
    and iv: "table_get interval_map time_range ''1h'' = Inr iv"
  shows "(\<forall>be'. be' (search_url (ElasticsearchConnector url name) (alert_index_of name)) (alerts_per_hour_query r iv) = be (search_url (ElasticsearchConnector url name) (alert_index_of name)) (alerts_per_hour_query r iv) \<longrightarrow>
        map_of (get_dashboard_statistics py url be' name time_range) ''alerts_per_hour'' = map_of (get_dashboard_statistics py url be name time_range) ''alerts_per_hour'')"
proof (intro allI impI)
  fix be'
  assume "be' (search_url (ElasticsearchConnector url name) (alert_index_of name)) (alerts_per_hour_query r iv) = be (search_url (ElasticsearchConnector url name) (alert_index_of name)) (alerts_per_hour_query r iv)"
  then have "search (ElasticsearchConnector url name) be' (alert_index_of name) (alerts_per_hour_query r iv) = search (ElasticsearchConnector url name) be (alert_index_of name) (alerts_per_hour_query r iv)"
    by (rule search_cong)
  then have "get_alerts_per_hour (ElasticsearchConnector url name) be' (alert_index_of name) r iv = get_alerts_per_hour (ElasticsearchConnector url name) be (alert_index_of name) r iv"
    by (simp add: get_alerts_per_hour_def)
  with dashboard_fields(1) [OF r iv, where be = be and py = py and url = url and name = name]
    dashboard_fields(1) [OF r iv, where be = be' and py = py and url = url and name = name]
  show "map_of (get_dashboard_statistics py url be' name time_range) ''alerts_per_hour'' = map_of (get_dashboard_statistics py url be name time_range) ''alerts_per_hour''"
    by simp
qed

lemma severity_breakdown_non_200:
  assumes r: "table_get time_map time_range ''now-24h'' = Inr r"
    and iv: "table_get interval_map time_range ''1h'' = Inr iv"
  shows "(\<forall>status b. be (search_url (ElasticsearchConnector url name) (alert_index_of name)) (severity_breakdown_query r) 0 = Response status b \<and> status \<noteq> 200 \<longrightarrow>
        map_of (get_dashboard_statistics py url be name time_range) ''severity_breakdown'' = Some (JList [])
        \<and> map_of (get_dashboard_statistics py url be name time_range) ''severity_summary'' = Some (JObj [(''critical'', JInt 0), (''high'', JInt 0), (''medium'', JInt 0), (''low'', JInt 0)])
        \<and> map_of (get_dashboard_statistics py url be name time_range) ''critical_alerts'' = Some (JInt 0)
        \<and> map_of (get_dashboard_statistics py url be name time_range) ''total_alerts'' = Some (JInt 0))"
proof (intro allI impI)
  fix status b
  assume h: "be (search_url (ElasticsearchConnector url name) (alert_index_of name)) (severity_breakdown_query r) 0 = Response status b \<and> status \<noteq> 200"
  then have "search (ElasticsearchConnector url name) be (alert_index_of name) (severity_breakdown_query r) = Inr (JObj [])"
    using search_non_200 by blast
  then have g: "get_severity_breakdown py (ElasticsearchConnector url name) be (alert_index_of name) r = [(''severity_breakdown'', JList []), (''severity_summary'', bands_json \<lparr>critical = 0, high = 0, medium = 0, low = 0\<rparr>)]"
    by (simp add: get_severity_breakdown_def try_of_empty_response)
    from dashboard_totals [OF r iv g] have
      "map_of (get_dashboard_statistics py url be name time_range) ''critical_alerts'' = Some (JInt 0)"
      "map_of (get_dashboard_statistics py url be name time_range) ''total_alerts'' = Some (JInt 0)"
      by simp_all
    with dashboard_fields(2,3) [OF r iv, where be = be and py = py and url = url
        and name = name] g
    show "map_of (get_dashboard_statistics py url be name time_range) ''severity_breakdown'' = Some (JList [])
        \<and> map_of (get_dashboard_statistics py url be name time_range) ''severity_summary'' = Some (JObj [(''critical'', JInt 0), (''high'', JInt 0), (''medium'', JInt 0), (''low'', JInt 0)])
        \<and> map_of (get_dashboard_statistics py url be name time_range) ''critical_alerts'' = Some (JInt 0)
        \<and> map_of (get_dashboard_statistics py url be name time_range) ''total_alerts'' = Some (JInt 0)"
      by (simp add: bands_json_def)
qed

lemma severity_breakdown_raises:
  assumes r: "table_get time_map time_range ''now-24h'' = Inr r"
    and iv: "table_get interval_map time_range ''1h'' = Inr iv"
  shows "(\<forall>result e. search (ElasticsearchConnector url name) be (alert_index_of name) (severity_breakdown_query r) = Inr result \<and> (severity_breakdown_try py) result = Inl e \<longrightarrow>
        map_of (get_dashboard_statistics py url be name time_range) ''severity_breakdown'' = Some (JList [])
        \<and> map_of (get_dashboard_statistics py url be name time_range) ''severity_summary'' = Some (JObj [])
        \<and> map_of (get_dashboard_statistics py url be name time_range) ''critical_alerts'' = Some (JInt 0)
        \<and> map_of (get_dashboard_statistics py url be name time_range) ''total_alerts'' = Some (JInt 0))"
proof (intro allI impI)
  fix result e
  assume h: "search (ElasticsearchConnector url name) be (alert_index_of name) (severity_breakdown_query r) = Inr result \<and> (severity_breakdown_try py) result = Inl e"
  then have g: "get_severity_breakdown py (ElasticsearchConnector url name) be (alert_index_of name) r = [(''severity_breakdown'', JList []), (''severity_summary'', JObj [])]"
    by (simp add: get_severity_breakdown_def agent_health_json_def)
    from dashboard_totals [OF r iv g] have
      "map_of (get_dashboard_statistics py url be name time_range) ''critical_alerts'' = Some (JInt 0)"
      "map_of (get_dashboard_statistics py url be name time_range) ''total_alerts'' = Some (JInt 0)"
      by simp_all
    with dashboard_fields(2,3) [OF r iv, where be = be and py = py and url = url
        and name = name] g
    show "map_of (get_dashboard_statistics py url be name time_range) ''severity_breakdown'' = Some (JList [])
        \<and> map_of (get_dashboard_statistics py url be name time_range) ''severity_summary'' = Some (JObj [])
        \<and> map_of (get_dashboard_statistics py url be name time_range) ''critical_alerts'' = Some (JInt 0)
        \<and> map_of (get_dashboard_statistics py url be name time_range) ''total_alerts'' = Some (JInt 0)"
      by (simp add: bands_json_def)
qed

lemma severity_breakdown_own_answers:
  assumes r: "table_get time_map time_range ''now-24h'' = Inr r"
    and iv: "table_get interval_map time_range ''1h'' = Inr iv"
  shows "(\<forall>be'. be' (search_url (ElasticsearchConnector url name) (alert_index_of name)) (severity_breakdown_query r) = be (search_url (ElasticsearchConnector url name) (alert_index_of name)) (severity_breakdown_query r) \<longrightarrow>
        map_of (get_dashboard_statistics py url be' name time_range) ''severity_breakdown'' = map_of (get_dashboard_statistics py url be name time_range) ''severity_breakdown''
        \<and> map_of (get_dashboard_statistics py url be' name time_range) ''severity_summary'' = map_of (get_dashboard_statistics py url be name time_range) ''severity_summary''
        \<and> map_of (get_dashboard_statistics py url be' name time_range) ''critical_alerts'' = map_of (get_dashboard_statistics py url be name time_range) ''critical_alerts''
        \<and> map_of (get_dashboard_statistics py url be' name time_range) ''total_alerts'' = map_of (get_dashboard_statistics py url be name time_range) ''total_alerts'')"
proof (intro allI impI)
  fix be'
  assume "be' (search_url (ElasticsearchConnector url name) (alert_index_of name)) (severity_breakdown_query r) = be (search_url (ElasticsearchConnector url name) (alert_index_of name)) (severity_breakdown_query r)"
  then have "search (ElasticsearchConnector url name) be' (alert_index_of name) (severity_breakdown_query r) = search (ElasticsearchConnector url name) be (alert_index_of name) (severity_breakdown_query r)"
    by (rule search_cong)
  then have same: "get_severity_breakdown py (ElasticsearchConnector url name) be' (alert_index_of name) r = get_severity_breakdown py (ElasticsearchConnector url name) be (alert_index_of name) r"
    by (simp add: get_severity_breakdown_def)
  from severity_breakdown_shape [of py "ElasticsearchConnector url name" be "alert_index_of name" r]
  obtain xs ss where sev: "get_severity_breakdown py (ElasticsearchConnector url name) be (alert_index_of name) r =
       [(''severity_breakdown'', JList xs), (''severity_summary'', ss)]"
    and ss: "(\<exists>s. ss = bands_json s) \<or> (ss = JObj [] \<and> xs = [])"
    by blast
  from sev same have sev': "get_severity_breakdown py (ElasticsearchConnector url name) be' (alert_index_of name) r =
       [(''severity_breakdown'', JList xs), (''severity_summary'', ss)]"
    by simp
  have totals: "map_of (get_dashboard_statistics py url be' name time_range) ''critical_alerts'' = map_of (get_dashboard_statistics py url be name time_range) ''critical_alerts''
      \<and> map_of (get_dashboard_statistics py url be' name time_range) ''total_alerts'' = map_of (get_dashboard_statistics py url be name time_range) ''total_alerts''"
    using ss dashboard_totals [OF r iv sev]
      dashboard_totals [OF r iv sev']
    by auto
  from same dashboard_fields(2,3) [OF r iv, where be = be and py = py and url = url
      and name = name]
    dashboard_fields(2,3) [OF r iv, where be = be' and py = py and url = url and name = name]
  have "map_of (get_dashboard_statistics py url be' name time_range) ''severity_breakdown'' = map_of (get_dashboard_statistics py url be name time_range) ''severity_breakdown''"
    and "map_of (get_dashboard_statistics py url be' name time_range) ''severity_summary'' = map_of (get_dashboard_statistics py url be name time_range) ''severity_summary''"
    by simp_all
  with totals show "map_of (get_dashboard_statistics py url be' name time_range) ''severity_breakdown'' = map_of (get_dashboard_statistics py url be name time_range) ''severity_breakdown''
        \<and> map_of (get_dashboard_statistics py url be' name time_range) ''severity_summary'' = map_of (get_dashboard_statistics py url be name time_range) ''severity_summary''
        \<and> map_of (get_dashboard_statistics py url be' name time_range) ''critical_alerts'' = map_of (get_dashboard_statistics py url be name time_range) ''critical_alerts''
        \<and> map_of (get_dashboard_statistics py url be' name time_range) ''total_alerts'' = map_of (get_dashboard_statistics py url be name time_range) ''total_alerts''"
    by simp
qed

lemma top_rules_non_200:
  assumes r: "table_get time_map time_range ''now-24h'' = Inr r"
    and iv: "table_get interval_map time_range ''1h'' = Inr iv"
  shows "(\<forall>status b. be (search_url (ElasticsearchConnector url name) (alert_index_of name)) (top_rules_query r) 0 = Response status b \<and> status \<noteq> 200 \<longrightarrow>
        map_of (get_dashboard_statistics py url be name time_range) ''top_rules'' = Some (JList []))"
proof (intro allI impI)
  fix status b
  assume h: "be (search_url (ElasticsearchConnector url name) (alert_index_of name)) (top_rules_query r) 0 = Response status b \<and> status \<noteq> 200"
  then have "search (ElasticsearchConnector url name) be (alert_index_of name) (top_rules_query r) = Inr (JObj [])"
    using search_non_200 by blast
  then have g: "get_top_rules (ElasticsearchConnector url name) be (alert_index_of name) r = [(''top_rules'', JList [])]"
    by (simp add: get_top_rules_def try_of_empty_response)
    from dashboard_fields(4) [OF r iv, where be = be and py = py and url = url
        and name = name] g
    show "map_of (get_dashboard_statistics py url be name time_range) ''top_rules'' = Some (JList [])"
      by (simp add: agent_health_json_def)
qed

lemma top_rules_raises:
  assumes r: "table_get time_map time_range ''now-24h'' = Inr r"
    and iv: "table_get interval_map time_range ''1h'' = Inr iv"
  shows "(\<forall>result e. search (ElasticsearchConnector url name) be (alert_index_of name) (top_rules_query r) = Inr result \<and> top_rules_try result = Inl e \<longrightarrow>
        map_of (get_dashboard_statistics py url be name time_range) ''top_rules'' = Some (JList []))"
proof (intro allI impI)
  fix result e
  assume h: "search (ElasticsearchConnector url name) be (alert_index_of name) (top_rules_query r) = Inr result \<and> top_rules_try result = Inl e"
  then have g: "get_top_rules (ElasticsearchConnector url name) be (alert_index_of name) r = [(''top_rules'', JList [])]"
    by (simp add: get_top_rules_def agent_health_json_def)
    from dashboard_fields(4) [OF r iv, where be = be and py = py and url = url
        and name = name] g
    show "map_of (get_dashboard_statistics py url be name time_range) ''top_rules'' = Some (JList [])"
      by (simp add: agent_health_json_def)
qed

lemma top_rules_own_answers:
  assumes r: "table_get time_map time_range ''now-24h'' = Inr r"
    and iv: "table_get interval_map time_range ''1h'' = Inr iv"
  shows "(\<forall>be'. be' (search_url (ElasticsearchConnector url name) (alert_index_of name)) (top_rules_query r) = be (search_url (ElasticsearchConnector url name) (alert_index_of name)) (top_rules_query r) \<longrightarrow>
        map_of (get_dashboard_statistics py url be' name time_range) ''top_rules'' = map_of (get_dashboard_statistics py url be name time_range) ''top_rules'')"
proof (intro allI impI)
  fix be'
  assume "be' (search_url (ElasticsearchConnector url name) (alert_index_of name)) (top_rules_query r) = be (search_url (ElasticsearchConnector url name) (alert_index_of name)) (top_rules_query r)"
  then have "search (ElasticsearchConnector url name) be' (alert_index_of name) (top_rules_query r) = search (ElasticsearchConnector url name) be (alert_index_of name) (top_rules_query r)"
    by (rule search_cong)
  then have "get_top_rules (ElasticsearchConnector url name) be' (alert_index_of name) r = get_top_rules (ElasticsearchConnector url name) be (alert_index_of name) r"
    by (simp add: get_top_rules_def)
  with dashboard_fields(4) [OF r iv, where be = be and py = py and url = url and name = name]
    dashboard_fields(4) [OF r iv, where be = be' and py = py and url = url and name = name]
  show "map_of (get_dashboard_statistics py url be' name time_range) ''top_rules'' = map_of (get_dashboard_statistics py url be name time_range) ''top_rules''"
    by simp
qed

lemma top_agents_non_200:
  assumes r: "table_get time_map time_range ''now-24h'' = Inr r"
    and iv: "table_get interval_map time_range ''1h'' = Inr iv"
  shows "(\<forall>status b. be (search_url (ElasticsearchConnector url name) (alert_index_of name)) top_agents_query 0 = Response status b \<and> status \<noteq> 200 \<longrightarrow>
        map_of (get_dashboard_statistics py url be name time_range) ''top_agents'' = Some (JList []))"
proof (intro allI impI)
  fix status b
  assume h: "be (search_url (ElasticsearchConnector url name) (alert_index_of name)) top_agents_query 0 = Response status b \<and> status \<noteq> 200"
  then have "search (ElasticsearchConnector url name) be (alert_index_of name) top_agents_query = Inr (JObj [])"
    using search_non_200 by blast
  then have g: "get_top_agents (ElasticsearchConnector url name) be (alert_index_of name) = [(''top_agents'', JList [])]"
    by (simp add: get_top_agents_def try_of_empty_response)
    from dashboard_fields(5) [OF r iv, where be = be and py = py and url = url
        and name = name] g
    show "map_of (get_dashboard_statistics py url be name time_range) ''top_agents'' = Some (JList [])"
      by (simp add: agent_health_json_def)
qed

lemma top_agents_raises:
  assumes r: "table_get time_map time_range ''now-24h'' = Inr r"
    and iv: "table_get interval_map time_range ''1h'' = Inr iv"
  shows "(\<forall>result e. search (ElasticsearchConnector url name) be (alert_index_of name) top_agents_query = Inr result \<and> top_agents_try result = Inl e \<longrightarrow>
        map_of (get_dashboard_statistics py url be name time_range) ''top_agents'' = Some (JList []))"
proof (intro allI impI)
  fix result e
  assume h: "search (ElasticsearchConnector url name) be (alert_index_of name) top_agents_query = Inr result \<and> top_agents_try result = Inl e"
  then have g: "get_top_agents (ElasticsearchConnector url name) be (alert_index_of name) = [(''top_agents'', JList [])]"
    by (simp add: get_top_agents_def agent_health_json_def)
    from dashboard_fields(5) [OF r iv, where be = be and py = py and url = url
        and name = name] g
    show "map_of (get_dashboard_statistics py url be name time_range) ''top_agents'' = Some (JList [])"
      by (simp add: agent_health_json_def)
qed

lemma top_agents_own_answers:
  assumes r: "table_get time_map time_range ''now-24h'' = Inr r"
    and iv: "table_get interval_map time_range ''1h'' = Inr iv"
  shows "(\<forall>be'. be' (search_url (ElasticsearchConnector url name) (alert_index_of name)) top_agents_query = be (search_url (ElasticsearchConnector url name) (alert_index_of name)) top_agents_query \<longrightarrow>
        map_of (get_dashboard_statistics py url be' name time_range) ''top_agents'' = map_of (get_dashboard_statistics py url be name time_range) ''top_agents'')"
proof (intro allI impI)
  fix be'
  assume "be' (search_url (ElasticsearchConnector url name) (alert_index_of name)) top_agents_query = be (search_url (ElasticsearchConnector url name) (alert_index_of name)) top_agents_query"
  then have "search (ElasticsearchConnector url name) be' (alert_index_of name) top_agents_query = search (ElasticsearchConnector url name) be (alert_index_of name) top_agents_query"
    by (rule search_cong)
  then have "get_top_agents (ElasticsearchConnector url name) be' (alert_index_of name) = get_top_agents (ElasticsearchConnector url name) be (alert_index_of name)"
    by (simp add: get_top_agents_def)
  with dashboard_fields(5) [OF r iv, where be = be and py = py and url = url and name = name]
    dashboard_fields(5) [OF r iv, where be = be' and py = py and url = url and name = name]
  show "map_of (get_dashboard_statistics py url be' name time_range) ''top_agents'' = map_of (get_dashboard_statistics py url be name time_range) ''top_agents''"
    by simp
qed

lemma top_source_ips_non_200:
  assumes r: "table_get time_map time_range ''now-24h'' = Inr r"
    and iv: "table_get interval_map time_range ''1h'' = Inr iv"
  shows "(\<forall>status b. be (search_url (ElasticsearchConnector url name) (alert_index_of name)) (top_source_ips_query r) 0 = Response status b \<and> status \<noteq> 200 \<longrightarrow>
        map_of (get_dashboard_statistics py url be name time_range) ''top_source_ips'' = Some (JList []))"
proof (intro allI impI)
  fix status b
  assume h: "be (search_url (ElasticsearchConnector url name) (alert_index_of name)) (top_source_ips_query r) 0 = Response status b \<and> status \<noteq> 200"
  then have "search (ElasticsearchConnector url name) be (alert_index_of name) (top_source_ips_query r) = Inr (JObj [])"
    using search_non_200 by blast
  then have g: "get_top_source_ips (ElasticsearchConnector url name) be (alert_index_of name) r = [(''top_source_ips'', JList [])]"
    by (simp add: get_top_source_ips_def try_of_empty_response)
    from dashboard_fields(6) [OF r iv, where be = be and py = py and url = url
        and name = name] g
    show "map_of (get_dashboard_statistics py url be name time_range) ''top_source_ips'' = Some (JList [])"
      by (simp add: agent_health_json_def)
qed

lemma top_source_ips_raises:
  assumes r: "table_get time_map time_range ''now-24h'' = Inr r"
    and iv: "table_get interval_map time_range ''1h'' = Inr iv"
  shows "(\<forall>result e. search (ElasticsearchConnector url name) be (alert_index_of name) (top_source_ips_query r) = Inr result \<and> top_source_ips_try result = Inl e \<longrightarrow>
        map_of (get_dashboard_statistics py url be name time_range) ''top_source_ips'' = Some (JList []))"
proof (intro allI impI)
  fix result e
  assume h: "search (ElasticsearchConnector url name) be (alert_index_of name) (top_source_ips_query r) = Inr result \<and> top_source_ips_try result = Inl e"
  then have g: "get_top_source_ips (ElasticsearchConnector url name) be (alert_index_of name) r = [(''top_source_ips'', JList [])]"
    by (simp add: get_top_source_ips_def agent_health_json_def)
    from dashboard_fields(6) [OF r iv, where be = be and py = py and url = url
        and name = name] g
    show "map_of (get_dashboard_statistics py url be name time_range) ''top_source_ips'' = Some (JList [])"
      by (simp add: agent_health_json_def)
qed

lemma top_source_ips_own_answers:
  assumes r: "table_get time_map time_range ''now-24h'' = Inr r"
    and iv: "table_get interval_map time_range ''1h'' = Inr iv"
  shows "(\<forall>be'. be' (search_url (ElasticsearchConnector url name) (alert_index_of name)) (top_source_ips_query r) = be (search_url (ElasticsearchConnector url name) (alert_index_of name)) (top_source_ips_query r) \<longrightarrow>
        map_of (get_dashboard_statistics py url be' name time_range) ''top_source_ips'' = map_of (get_dashboard_statistics py url be name time_range) ''top_source_ips'')"
proof (intro allI impI)
  fix be'
  assume "be' (search_url (ElasticsearchConnector url name) (alert_index_of name)) (top_source_ips_query r) = be (search_url (ElasticsearchConnector url name) (alert_index_of name)) (top_source_ips_query r)"
  then have "search (ElasticsearchConnector url name) be' (alert_index_of name) (top_source_ips_query r) = search (ElasticsearchConnector url name) be (alert_index_of name) (top_source_ips_query r)"
    by (rule search_cong)
  then have "get_top_source_ips (ElasticsearchConnector url name) be' (alert_index_of name) r = get_top_source_ips (ElasticsearchConnector url name) be (alert_index_of name) r"
    by (simp add: get_top_source_ips_def)
  with dashboard_fields(6) [OF r iv, where be = be and py = py and url = url and name = name]
    dashboard_fields(6) [OF r iv, where be = be' and py = py and url = url and name = name]
  show "map_of (get_dashboard_statistics py url be' name time_range) ''top_source_ips'' = map_of (get_dashboard_statistics py url be name time_range) ''top_source_ips''"
    by simp
qed

lemma alert_trends_non_200:
  assumes r: "table_get time_map time_range ''now-24h'' = Inr r"
    and iv: "table_get interval_map time_range ''1h'' = Inr iv"
  shows "(\<forall>status b. be (search_url (ElasticsearchConnector url name) (alert_index_of name)) (alert_trends_query r) 0 = Response status b \<and> status \<noteq> 200 \<longrightarrow>
        map_of (get_dashboard_statistics py url be name time_range) ''alert_trends'' = Some (JList []))"
proof (intro allI impI)
  fix status b
  assume h: "be (search_url (ElasticsearchConnector url name) (alert_index_of name)) (alert_trends_query r) 0 = Response status b \<and> status \<noteq> 200"
  then have "search (ElasticsearchConnector url name) be (alert_index_of name) (alert_trends_query r) = Inr (JObj [])"
    using search_non_200 by blast
  then have g: "get_alert_trends (ElasticsearchConnector url name) be (alert_index_of name) r = [(''alert_trends'', JList [])]"
    by (simp add: get_alert_trends_def try_of_empty_response)
    from dashboard_fields(7) [OF r iv, where be = be and py = py and url = url
        and name = name] g
    show "map_of (get_dashboard_statistics py url be name time_range) ''alert_trends'' = Some (JList [])"
      by (simp add: agent_health_json_def)
qed

lemma alert_trends_raises:
  assumes r: "table_get time_map time_range ''now-24h'' = Inr r"
    and iv: "table_get interval_map time_range ''1h'' = Inr iv"
  shows "(\<forall>result e. search (ElasticsearchConnector url name) be (alert_index_of name) (alert_trends_query r) = Inr result \<and> alert_trends_try result = Inl e \<longrightarrow>
        map_of (get_dashboard_statistics py url be name time_range) ''alert_trends'' = Some (JList []))"
proof (intro allI impI)
  fix result e
  assume h: "search (ElasticsearchConnector url name) be (alert_index_of name) (alert_trends_query r) = Inr result \<and> alert_trends_try result = Inl e"
  then have g: "get_alert_trends (ElasticsearchConnector url name) be (alert_index_of name) r = [(''alert_trends'', JList [])]"
    by (simp add: get_alert_trends_def agent_health_json_def)
    from dashboard_fields(7) [OF r iv, where be = be and py = py and url = url
        and name = name] g
    show "map_of (get_dashboard_statistics py url be name time_range) ''alert_trends'' = Some (JList [])"
      by (simp add: agent_health_json_def)
qed

lemma alert_trends_own_answers:
  assumes r: "table_get time_map time_range ''now-24h'' = Inr r"
    and iv: "table_get interval_map time_range ''1h'' = Inr iv"
  shows "(\<forall>be'. be' (search_url (ElasticsearchConnector url name) (alert_index_of name)) (alert_trends_query r) = be (search_url (ElasticsearchConnector url name) (alert_index_of name)) (alert_trends_query r) \<longrightarrow>
        map_of (get_dashboard_statistics py url be' name time_range) ''alert_trends'' = map_of (get_dashboard_statistics py url be name time_range) ''alert_trends'')"
proof (intro allI impI)
  fix be'
  assume "be' (search_url (ElasticsearchConnector url name) (alert_index_of name)) (alert_trends_query r) = be (search_url (ElasticsearchConnector url name) (alert_index_of name)) (alert_trends_query r)"
  then have "search (ElasticsearchConnector url name) be' (alert_index_of name) (alert_trends_query r) = search (ElasticsearchConnector url name) be (alert_index_of name) (alert_trends_query r)"
    by (rule search_cong)
  then have "get_alert_trends (ElasticsearchConnector url name) be' (alert_index_of name) r = get_alert_trends (ElasticsearchConnector url name) be (alert_index_of name) r"
    by (simp add: get_alert_trends_def)
  with dashboard_fields(7) [OF r iv, where be = be and py = py and url = url and name = name]
    dashboard_fields(7) [OF r iv, where be = be' and py = py and url = url and name = name]
  show "map_of (get_dashboard_statistics py url be' name time_range) ''alert_trends'' = map_of (get_dashboard_statistics py url be name time_range) ''alert_trends''"
    by simp
qed

lemma agent_status_non_200:
  assumes r: "table_get time_map time_range ''now-24h'' = Inr r"
    and iv: "table_get interval_map time_range ''1h'' = Inr iv"
  shows "(\<forall>status b. be (search_url (ElasticsearchConnector url name) (monitoring_index_of name)) agent_status_query 0 = Response status b \<and> status \<noteq> 200 \<longrightarrow>
        map_of (get_dashboard_statistics py url be name time_range) ''agent_health'' = Some (JObj [(''total'', JInt 0), (''online'', JInt 0), (''offline'', JInt 0)]))"
proof (intro allI impI)
  fix status b
  assume h: "be (search_url (ElasticsearchConnector url name) (monitoring_index_of name)) agent_status_query 0 = Response status b \<and> status \<noteq> 200"
  then have "search (ElasticsearchConnector url name) be (monitoring_index_of name) agent_status_query = Inr (JObj [])"
    using search_non_200 by blast
  then have g: "get_agent_status (ElasticsearchConnector url name) be (monitoring_index_of name) = [(''agent_health'', agent_health_json (0, 0))]"
    by (simp add: get_agent_status_def try_of_empty_response)
    from dashboard_fields(8) [OF r iv, where be = be and py = py and url = url
        and name = name] g
    show "map_of (get_dashboard_statistics py url be name time_range) ''agent_health'' = Some (JObj [(''total'', JInt 0), (''online'', JInt 0), (''offline'', JInt 0)])"
      by (simp add: agent_health_json_def)
qed

lemma agent_status_raises:
  assumes r: "table_get time_map time_range ''now-24h'' = Inr r"
    and iv: "table_get interval_map time_range ''1h'' = Inr iv"
  shows "(\<forall>result e. search (ElasticsearchConnector url name) be (monitoring_index_of name) agent_status_query = Inr result \<and> agent_status_try result = Inl e \<longrightarrow>
        map_of (get_dashboard_statistics py url be name time_range) ''agent_health'' = Some (JObj [(''total'', JInt 0), (''online'', JInt 0), (''offline'', JInt 0)]))"
proof (intro allI impI)
  fix result e
  assume h: "search (ElasticsearchConnector url name) be (monitoring_index_of name) agent_status_query = Inr result \<and> agent_status_try result = Inl e"
  then have g: "get_agent_status (ElasticsearchConnector url name) be (monitoring_index_of name) = [(''agent_health'', agent_health_json (0, 0))]"
    by (simp add: get_agent_status_def agent_health_json_def)
    from dashboard_fields(8) [OF r iv, where be = be and py = py and url = url
        and name = name] g
    show "map_of (get_dashboard_statistics py url be name time_range) ''agent_health'' = Some (JObj [(''total'', JInt 0), (''online'', JInt 0), (''offline'', JInt 0)])"
      by (simp add: agent_health_json_def)
qed

lemma agent_status_own_answers:
  assumes r: "table_get time_map time_range ''now-24h'' = Inr r"
    and iv: "table_get interval_map time_range ''1h'' = Inr iv"
  shows "(\<forall>be'. be' (search_url (ElasticsearchConnector url name) (monitoring_index_of name)) agent_status_query = be (search_url (ElasticsearchConnector url name) (monitoring_index_of name)) agent_status_query \<longrightarrow>
        map_of (get_dashboard_statistics py url be' name time_range) ''agent_health'' = map_of (get_dashboard_statistics py url be name time_range) ''agent_health'')"
proof (intro allI impI)
  fix be'
  assume "be' (search_url (ElasticsearchConnector url name) (monitoring_index_of name)) agent_status_query = be (search_url (ElasticsearchConnector url name) (monitoring_index_of name)) agent_status_query"
  then have "search (ElasticsearchConnector url name) be' (monitoring_index_of name) agent_status_query = search (ElasticsearchConnector url name) be (monitoring_index_of name) agent_status_query"
    by (rule search_cong)
  then have "get_agent_status (ElasticsearchConnector url name) be' (monitoring_index_of name) = get_agent_status (ElasticsearchConnector url name) be (monitoring_index_of name)"
    by (simp add: get_agent_status_def)
  with dashboard_fields(8) [OF r iv, where be = be and py = py and url = url and name = name]
    dashboard_fields(8) [OF r iv, where be = be' and py = py and url = url and name = name]
  show "map_of (get_dashboard_statistics py url be' name time_range) ''agent_health'' = map_of (get_dashboard_statistics py url be name time_range) ''agent_health''"
    by simp
qed

lemma queries_distinct:
  "distinct [alerts_per_hour_query r iv, severity_breakdown_query r, top_rules_query r,
       top_agents_query, top_source_ips_query r, alert_trends_query r, agent_status_query]"
  by (simp add: alerts_per_hour_query_def severity_breakdown_query_def top_rules_query_def
      top_agents_query_def top_source_ips_query_def alert_trends_query_def
      agent_status_query_def)

text \<open>
  C1. In a statistics call that issues its queries (the time range is hashable), for
  each of the seven fragment queries:
  \<^item> when the backend answers the query with a status other than 200, the fields of
    that fragment have their empty or zero value (for the severity fragment: the empty
    breakdown, the four bands at 0 and both totals 0);
  \<^item> when the reduction of the response raises, the fields of that fragment have the
    empty value of the \<^verbatim>\<open>except\<close> clause;
  \<^item> the fields of that fragment are the same for every backend that gives the same
    answers to that fragment's own query, whatever it answers to the others.

  The seven query bodies are pairwise different, so the answers to one query can fail
  or change while the answers to the others stay. \<open>alerts\<close> and \<open>monitoring\<close>
  are the URLs of the two searches.
\<close>

theorem fragments_isolated:
  assumes r: "table_get time_map time_range ''now-24h'' = Inr r"
    and iv: "table_get interval_map time_range ''1h'' = Inr iv"
    and c: "c = ElasticsearchConnector url name"
    and alerts: "alerts = search_url c (alert_index_of name)"
    and monitoring: "monitoring = search_url c (monitoring_index_of name)"
  shows "(\<forall>status b. be alerts (alerts_per_hour_query r iv) 0 = Response status b \<and> status \<noteq> 200 \<longrightarrow>
        map_of (get_dashboard_statistics py url be name time_range) ''alerts_per_hour'' = Some (JList []))
    \<and> (\<forall>result e. search c be (alert_index_of name) (alerts_per_hour_query r iv) = Inr result \<and> alerts_per_hour_try result = Inl e \<longrightarrow>
        map_of (get_dashboard_statistics py url be name time_range) ''alerts_per_hour'' = Some (JList []))
    \<and> (\<forall>be'. be' alerts (alerts_per_hour_query r iv) = be alerts (alerts_per_hour_query r iv) \<longrightarrow>
        map_of (get_dashboard_statistics py url be' name time_range) ''alerts_per_hour'' = map_of (get_dashboard_statistics py url be name time_range) ''alerts_per_hour'')
    \<and> (\<forall>status b. be alerts (severity_breakdown_query r) 0 = Response status b \<and> status \<noteq> 200 \<longrightarrow>
        map_of (get_dashboard_statistics py url be name time_range) ''severity_breakdown'' = Some (JList [])
        \<and> map_of (get_dashboard_statistics py url be name time_range) ''severity_summary'' = Some (JObj [(''critical'', JInt 0), (''high'', JInt 0), (''medium'', JInt 0), (''low'', JInt 0)])
        \<and> map_of (get_dashboard_statistics py url be name time_range) ''critical_alerts'' = Some (JInt 0)
        \<and> map_of (get_dashboard_statistics py url be name time_range) ''total_alerts'' = Some (JInt 0))
    \<and> (\<forall>result e. search c be (alert_index_of name) (severity_breakdown_query r) = Inr result \<and> (severity_breakdown_try py) result = Inl e \<longrightarrow>
        map_of (get_dashboard_statistics py url be name time_range) ''severity_breakdown'' = Some (JList [])
        \<and> map_of (get_dashboard_statistics py url be name time_range) ''severity_summary'' = Some (JObj [])
        \<and> map_of (get_dashboard_statistics py url be name time_range) ''critical_alerts'' = Some (JInt 0)
        \<and> map_of (get_dashboard_statistics py url be name time_range) ''total_alerts'' = Some (JInt 0))
    \<and> (\<forall>be'. be' alerts (severity_breakdown_query r) = be alerts (severity_breakdown_query r) \<longrightarrow>
        map_of (get_dashboard_statistics py url be' name time_range) ''severity_breakdown'' = map_of (get_dashboard_statistics py url be name time_range) ''severity_breakdown''
        \<and> map_of (get_dashboard_statistics py url be' name time_range) ''severity_summary'' = map_of (get_dashboard_statistics py url be name time_range) ''severity_summary''
        \<and> map_of (get_dashboard_statistics py url be' name time_range) ''critical_alerts'' = map_of (get_dashboard_statistics py url be name time_range) ''critical_alerts''
        \<and> map_of (get_dashboard_statistics py url be' name time_range) ''total_alerts'' = map_of (get_dashboard_statistics py url be name time_range) ''total_alerts'')
    \<and> (\<forall>status b. be alerts (top_rules_query r) 0 = Response status b \<and> status \<noteq> 200 \<longrightarrow>
        map_of (get_dashboard_statistics py url be name time_range) ''top_rules'' = Some (JList []))
    \<and> (\<forall>result e. search c be (alert_index_of name) (top_rules_query r) = Inr result \<and> top_rules_try result = Inl e \<longrightarrow>
        map_of (get_dashboard_statistics py url be name time_range) ''top_rules'' = Some (JList []))
    \<and> (\<forall>be'. be' alerts (top_rules_query r) = be alerts (top_rules_query r) \<longrightarrow>
        map_of (get_dashboard_statistics py url be' name time_range) ''top_rules'' = map_of (get_dashboard_statistics py url be name time_range) ''top_rules'')
    \<and> (\<forall>status b. be alerts top_agents_query 0 = Response status b \<and> status \<noteq> 200 \<longrightarrow>
        map_of (get_dashboard_statistics py url be name time_range) ''top_agents'' = Some (JList []))
    \<and> (\<forall>result e. search c be (alert_index_of name) top_agents_query = Inr result \<and> top_agents_try result = Inl e \<longrightarrow>
        map_of (get_dashboard_statistics py url be name time_range) ''top_agents'' = Some (JList []))
    \<and> (\<forall>be'. be' alerts top_agents_query = be alerts top_agents_query \<longrightarrow>
        map_of (get_dashboard_statistics py url be' name time_range) ''top_agents'' = map_of (get_dashboard_statistics py url be name time_range) ''top_agents'')
    \<and> (\<forall>status b. be alerts (top_source_ips_query r) 0 = Response status b \<and> status \<noteq> 200 \<longrightarrow>
        map_of (get_dashboard_statistics py url be name time_range) ''top_source_ips'' = Some (JList []))
    \<and> (\<forall>result e. search c be (alert_index_of name) (top_source_ips_query r) = Inr result \<and> top_source_ips_try result = Inl e \<longrightarrow>
        map_of (get_dashboard_statistics py url be name time_range) ''top_source_ips'' = Some (JList []))
    \<and> (\<forall>be'. be' alerts (top_source_ips_query r) = be alerts (top_source_ips_query r) \<longrightarrow>
        map_of (get_dashboard_statistics py url be' name time_range) ''top_source_ips'' = map_of (get_dashboard_statistics py url be name time_range) ''top_source_ips'')
    \<and> (\<forall>status b. be alerts (alert_trends_query r) 0 = Response status b \<and> status \<noteq> 200 \<longrightarrow>
        map_of (get_dashboard_statistics py url be name time_range) ''alert_trends'' = Some (JList []))
    \<and> (\<forall>result e. search c be (alert_index_of name) (alert_trends_query r) = Inr result \<and> alert_trends_try result = Inl e \<longrightarrow>
        map_of (get_dashboard_statistics py url be name time_range) ''alert_trends'' = Some (JList []))
    \<and> (\<forall>be'. be' alerts (alert_trends_query r) = be alerts (alert_trends_query r) \<longrightarrow>
        map_of (get_dashboard_statistics py url be' name time_range) ''alert_trends'' = map_of (get_dashboard_statistics py url be name time_range) ''alert_trends'')
    \<and> (\<forall>status b. be monitoring agent_status_query 0 = Response status b \<and> status \<noteq> 200 \<longrightarrow>
        map_of (get_dashboard_statistics py url be name time_range) ''agent_health'' = Some (JObj [(''total'', JInt 0), (''online'', JInt 0), (''offline'', JInt 0)]))
    \<and> (\<forall>result e. search c be (monitoring_index_of name) agent_status_query = Inr result \<and> agent_status_try result = Inl e \<longrightarrow>
        map_of (get_dashboard_statistics py url be name time_range) ''agent_health'' = Some (JObj [(''total'', JInt 0), (''online'', JInt 0), (''offline'', JInt 0)]))
    \<and> (\<forall>be'. be' monitoring agent_status_query = be monitoring agent_status_query \<longrightarrow>
        map_of (get_dashboard_statistics py url be' name time_range) ''agent_health'' = map_of (get_dashboard_statistics py url be name time_range) ''agent_health'')
    \<and> distinct [alerts_per_hour_query r iv, severity_breakdown_query r, top_rules_query r,
       top_agents_query, top_source_ips_query r, alert_trends_query r, agent_status_query]"
  unfolding alerts monitoring c
  apply (intro conjI)
  apply (rule alerts_per_hour_non_200 [OF r iv])
  apply (rule alerts_per_hour_raises [OF r iv])
  apply (rule alerts_per_hour_own_answers [OF r iv])
  apply (rule severity_breakdown_non_200 [OF r iv])
  apply (rule severity_breakdown_raises [OF r iv])
  apply (rule severity_breakdown_own_answers [OF r iv])
  apply (rule top_rules_non_200 [OF r iv])
  apply (rule top_rules_raises [OF r iv])
  apply (rule top_rules_own_answers [OF r iv])
  apply (rule top_agents_non_200 [OF r iv])
  apply (rule top_agents_raises [OF r iv])
  apply (rule top_agents_own_answers [OF r iv])
  apply (rule top_source_ips_non_200 [OF r iv])
  apply (rule top_source_ips_raises [OF r iv])
  apply (rule top_source_ips_own_answers [OF r iv])
  apply (rule alert_trends_non_200 [OF r iv])
  apply (rule alert_trends_raises [OF r iv])
  apply (rule alert_trends_own_answers [OF r iv])
  apply (rule agent_status_non_200 [OF r iv])
  apply (rule agent_status_raises [OF r iv])
  apply (rule agent_status_own_answers [OF r iv])
  apply (rule queries_distinct)
  done

theorem fragments_isolated_witness:
  "map_of (get_dashboard_statistics \<lparr>int_of_str = (\<lambda>s. None), str_of_exn = (\<lambda>e. [])\<rparr>
      ''http://es:9200''
      (\<lambda>u q n. if q = severity_breakdown_query ''now-7d'' then Response 503 (Inl RequestException)
         else Response 200 (Inr (JObj [(''aggregations'', JObj [(''alerts_per_hour'',
           JObj [(''buckets'', JList [JObj [(''key_as_string'', JStr ''2024-05-01 06:00:00''),
             (''doc_count'', JInt 4)]])])])])))
      (Some ''lab'') (JStr ''7d'')) ''severity_summary''
    = Some (JObj [(''critical'', JInt 0), (''high'', JInt 0), (''medium'', JInt 0),
                  (''low'', JInt 0)])
   \<and> map_of (get_dashboard_statistics \<lparr>int_of_str = (\<lambda>s. None), str_of_exn = (\<lambda>e. [])\<rparr>
      ''http://es:9200''
      (\<lambda>u q n. if q = severity_breakdown_query ''now-7d'' then Response 503 (Inl RequestException)
         else Response 200 (Inr (JObj [(''aggregations'', JObj [(''alerts_per_hour'',
           JObj [(''buckets'', JList [JObj [(''key_as_string'', JStr ''2024-05-01 06:00:00''),
             (''doc_count'', JInt 4)]])])])])))
      (Some ''lab'') (JStr ''7d'')) ''total_alerts''
    = Some (JInt 0)
   \<and> map_of (get_dashboard_statistics \<lparr>int_of_str = (\<lambda>s. None), str_of_exn = (\<lambda>e. [])\<rparr>
      ''http://es:9200''
      (\<lambda>u q n. if q = severity_breakdown_query ''now-7d'' then Response 503 (Inl RequestException)
         else Response 200 (Inr (JObj [(''aggregations'', JObj [(''alerts_per_hour'',
           JObj [(''buckets'', JList [JObj [(''key_as_string'', JStr ''2024-05-01 06:00:00''),
             (''doc_count'', JInt 4)]])])])])))
      (Some ''lab'') (JStr ''7d'')) ''alerts_per_hour''
    = Some (JList [JObj [(''timestamp'', JStr ''2024-05-01 06:00:00''), (''count'', JInt 4)]])"
proof -
  let ?py = "\<lparr>int_of_str = (\<lambda>s. None), str_of_exn = (\<lambda>e. [])\<rparr>"
  let ?result = "JObj [(''aggregations'', JObj [(''alerts_per_hour'',
           JObj [(''buckets'', JList [JObj [(''key_as_string'', JStr ''2024-05-01 06:00:00''),
             (''doc_count'', JInt 4)]])])])]"
  let ?be = "\<lambda>u q n. if q = severity_breakdown_query ''now-7d'' then Response 503 (Inl RequestException)
         else Response 200 (Inr ?result)"
  let ?be' = "\<lambda>u q n. Response 200 (Inr ?result)"
  let ?c = "ElasticsearchConnector ''http://es:9200'' (Some ''lab'')"
  have r: "table_get time_map (JStr ''7d'') ''now-24h'' = Inr ''now-7d''"
    by (simp add: time_map_def)
  have iv: "table_get interval_map (JStr ''7d'') ''1h'' = Inr ''6h''"
    by (simp add: interval_map_def)
  note isolated = fragments_isolated [OF r iv refl refl refl, where py = ?py
      and url = "''http://es:9200''" and name = "Some ''lab''" and be = ?be]
  have refused: "?be (search_url ?c (alert_index_of (Some ''lab'')))
      (severity_breakdown_query ''now-7d'') 0 = Response 503 (Inl RequestException) \<and> (503::nat) \<noteq> 200"
    by simp
  have severity: "map_of (get_dashboard_statistics ?py ''http://es:9200'' ?be (Some ''lab'')
        (JStr ''7d'')) ''severity_summary''
      = Some (JObj [(''critical'', JInt 0), (''high'', JInt 0), (''medium'', JInt 0),
                    (''low'', JInt 0)])
    \<and> map_of (get_dashboard_statistics ?py ''http://es:9200'' ?be (Some ''lab'')
        (JStr ''7d'')) ''total_alerts'' = Some (JInt 0)"
    using isolated [THEN conjunct2, THEN conjunct2, THEN conjunct2, THEN conjunct1,
        rule_format, OF refused]
    by simp
  have "alerts_per_hour_query ''now-7d'' ''6h'' \<noteq> severity_breakdown_query ''now-7d''"
    by (simp add: alerts_per_hour_query_def severity_breakdown_query_def)
  then have same: "?be' (search_url ?c (alert_index_of (Some ''lab'')))
      (alerts_per_hour_query ''now-7d'' ''6h'')
    = ?be (search_url ?c (alert_index_of (Some ''lab''))) (alerts_per_hour_query ''now-7d'' ''6h'')"
    by simp
  have hourly: "map_of (get_dashboard_statistics ?py ''http://es:9200'' ?be' (Some ''lab'')
        (JStr ''7d'')) ''alerts_per_hour''
      = map_of (get_dashboard_statistics ?py ''http://es:9200'' ?be (Some ''lab'')
        (JStr ''7d'')) ''alerts_per_hour''"
    by (rule isolated [THEN conjunct2, THEN conjunct2, THEN conjunct1, rule_format])
      (rule same)
  have "get_alerts_per_hour ?c ?be' (alert_index_of (Some ''lab'')) ''now-7d'' ''6h''
      = [(''alerts_per_hour'',
          JList [JObj [(''timestamp'', JStr ''2024-05-01 06:00:00''), (''count'', JInt 4)]])]"
    by (simp add: get_alerts_per_hour_def search_def search_events_unfold
        alerts_per_hour_try_def agg_buckets_def alerts_per_hour_entry_def)
  with dashboard_fields(1) [OF r iv, where py = ?py and url = "''http://es:9200''"
      and name = "Some ''lab''" and be = ?be']
  have "map_of (get_dashboard_statistics ?py ''http://es:9200'' ?be' (Some ''lab'')
        (JStr ''7d'')) ''alerts_per_hour''
      = Some (JList [JObj [(''timestamp'', JStr ''2024-05-01 06:00:00''), (''count'', JInt 4)]])"
    by simp
  with hourly severity show ?thesis by simp
qed

end
